theory Spec2Isabelle
  imports Complex_Main "HOL-Library.Product_Lexorder" "HOL-Library.Sublist"
begin

section \<open>Common Python notions\<close>

text \<open>
  The services are written in Python.  A Python \<open>str\<close> is modelled as a \<open>string\<close>
  whose characters are ASCII code points; \<open>str.lower\<close> and \<open>str.upper\<close> act on the
  letters \<open>A\<close>..\<open>Z\<close> and \<open>a\<close>..\<open>z\<close> and leave every other character alone.
  A \<open>dict\<close> whose iteration order matters is an association list in insertion order.
  Exceptions are values of \<open>py_error\<close>; a function that can raise returns
  \<open>py_error + 'a\<close>.
\<close>

datatype py_error = KeyError | ValueError | StopIteration

definition lower_char :: "char \<Rightarrow> char" where
  "lower_char c =
     (case map_of (zip ''ABCDEFGHIJKLMNOPQRSTUVWXYZ'' ''abcdefghijklmnopqrstuvwxyz'') c of
        Some d \<Rightarrow> d
      | None \<Rightarrow> c)"

definition upper_char :: "char \<Rightarrow> char" where
  "upper_char c =
     (case map_of (zip ''abcdefghijklmnopqrstuvwxyz'' ''ABCDEFGHIJKLMNOPQRSTUVWXYZ'') c of
        Some d \<Rightarrow> d
      | None \<Rightarrow> c)"

definition lower :: "string \<Rightarrow> string" where
  "lower s = map lower_char s"

definition upper :: "string \<Rightarrow> string" where
  "upper s = map upper_char s"

text \<open>\<open>max(iterable, key=f)\<close>: the first element whose key is maximal; \<open>ValueError\<close>
  on an empty iterable.\<close>

definition py_max :: "('a \<Rightarrow> 'b::linorder) \<Rightarrow> 'a list \<Rightarrow> py_error + 'a" where
  "py_max f xs =
     (case xs of
        [] \<Rightarrow> Inl ValueError
      | x # ys \<Rightarrow> Inr (foldl (\<lambda>best y. if f best < f y then y else best) x ys))"

text \<open>\<open>d[k]\<close>: \<open>KeyError\<close> when the key is missing.\<close>

definition py_getitem :: "('k \<times> 'v) list \<Rightarrow> 'k \<Rightarrow> py_error + 'v" where
  "py_getitem d k = (case map_of d k of None \<Rightarrow> Inl KeyError | Some v \<Rightarrow> Inr v)"

text \<open>\<open>d.get(k, default)\<close>.\<close>

definition py_get :: "('k \<times> 'v) list \<Rightarrow> 'k \<Rightarrow> 'v \<Rightarrow> 'v" where
  "py_get d k dflt = (case map_of d k of None \<Rightarrow> dflt | Some v \<Rightarrow> v)"

text \<open>\<open>d[k] += 1\<close> on a dictionary of counters.\<close>

fun py_incr :: "'k \<Rightarrow> ('k \<times> int) list \<Rightarrow> py_error + ('k \<times> int) list" where
  "py_incr k [] = Inl KeyError"
| "py_incr k ((k', v) # d) =
     (if k = k' then Inr ((k', v + 1) # d)
      else (case py_incr k d of Inl e \<Rightarrow> Inl e | Inr d' \<Rightarrow> Inr ((k', v) # d')))"

section \<open>Personality classifier (\<open>personality_analysis/personality_analyzer.py\<close>)\<close>

record PersonalityResult =
  dominant_color :: string
  scores :: "(string \<times> int) list"
  career_suggestions :: "string list"
  strengths :: "string list"
  weaknesses :: "string list"

definition CAREER_MAP :: "(string \<times> string list) list" where
  "CAREER_MAP =
     [(''RED'', [''Management'', ''Entrepreneurship'', ''Sales Leadership'', ''Project Management'']),
      (''YELLOW'', [''Marketing'', ''Public Relations'', ''Training'', ''Sales'', ''HR'']),
      (''GREEN'', [''Customer Service'', ''Healthcare'', ''Social Work'', ''Teaching'']),
      (''BLUE'', [''Data Analysis'', ''Engineering'', ''Research'', ''Quality Assurance''])]"

definition get_strengths :: "string \<Rightarrow> string list" where
  "get_strengths color =
     py_get [(''RED'', [''Leadership'', ''Decision-making'', ''Results-oriented'']),
             (''YELLOW'', [''Communication'', ''Creativity'', ''Optimism'']),
             (''GREEN'', [''Teamwork'', ''Patience'', ''Reliability'']),
             (''BLUE'', [''Analysis'', ''Precision'', ''Planning''])] color []"

definition get_weaknesses :: "string \<Rightarrow> string list" where
  "get_weaknesses color =
     py_get [(''RED'', [''Impatience'', ''Dominating'']),
             (''YELLOW'', [''Disorganized'', ''Unrealistic'']),
             (''GREEN'', [''Avoids conflict'', ''Resistant to change'']),
             (''BLUE'', [''Overthinking'', ''Critical''])] color []"

text \<open>The body of the loop \<open>for answer in responses.values()\<close>: one \<open>if\<close>/\<open>elif\<close>
  chain on \<open>answer.upper()\<close>, with no \<open>else\<close> branch.\<close>

definition tally_answer :: "string \<Rightarrow> (string \<times> int) list \<Rightarrow> py_error + (string \<times> int) list" where
  "tally_answer answer sc =
     (if upper answer = ''A'' then py_incr ''RED'' sc
      else if upper answer = ''B'' then py_incr ''YELLOW'' sc
      else if upper answer = ''C'' then py_incr ''GREEN'' sc
      else if upper answer = ''D'' then py_incr ''BLUE'' sc
      else Inr sc)"

fun tally :: "string list \<Rightarrow> (string \<times> int) list \<Rightarrow> py_error + (string \<times> int) list" where
  "tally [] sc = Inr sc"
| "tally (answer # rest) sc =
     (case tally_answer answer sc of Inl e \<Rightarrow> Inl e | Inr sc' \<Rightarrow> tally rest sc')"

text \<open>\<open>responses\<close> is a \<open>Dict[int, str]\<close>; \<open>responses.values()\<close> are the second
  components in insertion order.  \<open>max(scores, key=scores.get)\<close> runs over the keys of
  \<open>scores\<close> and compares the values stored under them, which is \<open>py_max\<close> over the
  items by their value.\<close>

definition analyze_personality :: "(int \<times> string) list \<Rightarrow> py_error + PersonalityResult" where
  "analyze_personality responses =
     (case tally (map snd responses)
             [(''RED'', 0), (''YELLOW'', 0), (''GREEN'', 0), (''BLUE'', 0)] of
        Inl e \<Rightarrow> Inl e
      | Inr sc \<Rightarrow>
          (case py_max snd sc of
             Inl e \<Rightarrow> Inl e
           | Inr item \<Rightarrow>
               (let dominant = fst item in
                case py_getitem CAREER_MAP dominant of
                  Inl e \<Rightarrow> Inl e
                | Inr suggestions \<Rightarrow>
                    Inr \<lparr>dominant_color = dominant,
                         scores = sc,
                         career_suggestions = suggestions,
                         strengths = get_strengths dominant,
                         weaknesses = get_weaknesses dominant\<rparr>)))"

text \<open>The reading of the specification used to state the tally: how many answers are
  the given letter in either case, and which colour wins for given counts.\<close>

definition count_letter :: "string \<Rightarrow> string \<Rightarrow> (int \<times> string) list \<Rightarrow> int" where
  "count_letter lo up responses =
     int (length (filter (\<lambda>a. a = lo \<or> a = up) (map snd responses)))"

definition priority_winner :: "int \<Rightarrow> int \<Rightarrow> int \<Rightarrow> int \<Rightarrow> string" where
  "priority_winner r y g b =
     (if y \<le> r \<and> g \<le> r \<and> b \<le> r then ''RED''
      else if g \<le> y \<and> b \<le> y then ''YELLOW''
      else if b \<le> g then ''GREEN''
      else ''BLUE'')"

section \<open>Python floats\<close>

text \<open>
  A Python \<open>float\<close> is an IEEE 754 binary64 number.  Every finite binary64 value is a
  rational, so a float is modelled by the rational it denotes, and every operation is
  the exact operation followed by \<open>rnd\<close>, rounding to the nearest number with a 53 bit
  significand, ties to the even significand.  The floats of this program are sums and
  products of small integers, of the literals below and of ratios of list lengths,
  far from the overflow threshold and from the subnormal range, so infinities, NaN and
  subnormal numbers are not modelled.  Where Python mixes an \<open>int\<close> such as \<open>0\<close> or
  \<open>100\<close> with floats, the rational is the same.
\<close>

function bit_len :: "int \<Rightarrow> int" where
  "bit_len n = (if n \<le> 0 then 0 else 1 + bit_len (n div 2))"
  by pat_completeness auto
termination
  by (relation "measure nat") auto

declare bit_len.simps [simp del]

definition pow2 :: "int \<Rightarrow> rat" where
  "pow2 e = (if 0 \<le> e then 2 ^ nat e else 1 / 2 ^ nat (- e))"

text \<open>For \<open>0 < x\<close>, \<open>ilog2 x\<close> is the exponent \<open>e\<close> with \<open>2\<^sup>e \<le> x < 2\<^sup>e\<^sup>+\<^sup>1\<close>.\<close>

definition ilog2 :: "rat \<Rightarrow> int" where
  "ilog2 x = (if 1 \<le> x then bit_len \<lfloor>x\<rfloor> - 1 else - bit_len (\<lceil>1 / x\<rceil> - 1))"

text \<open>Rounding to the nearest integer, ties to even.\<close>

definition rhe :: "rat \<Rightarrow> int" where
  "rhe x = (let f = \<lfloor>x\<rfloor>; d = x - of_int f
            in if d < 1 / 2 then f
               else if 1 / 2 < d then f + 1
               else if even f then f else f + 1)"

definition rnd_pos :: "rat \<Rightarrow> rat" where
  "rnd_pos x = (let u = pow2 (ilog2 x - 52) in of_int (rhe (x / u)) * u)"

definition rnd :: "rat \<Rightarrow> rat" where
  "rnd x = (if x = 0 then 0 else if 0 < x then rnd_pos x else - rnd_pos (- x))"

text \<open>A decimal literal such as \<open>0.7\<close> denotes the float nearest to it.\<close>

definition lit :: "rat \<Rightarrow> rat" where
  "lit q = rnd q"

text \<open>An \<open>int\<close> operand of a float operation is converted to a float first.\<close>

definition fl_of_int :: "int \<Rightarrow> rat" where
  "fl_of_int n = rnd (of_int n)"

definition fl_add :: "rat \<Rightarrow> rat \<Rightarrow> rat" where
  "fl_add a b = rnd (a + b)"

definition fl_mul :: "rat \<Rightarrow> rat \<Rightarrow> rat" where
  "fl_mul a b = rnd (a * b)"

text \<open>\<open>a / b\<close> on two \<open>int\<close>s: the correctly rounded quotient.\<close>

definition int_truediv :: "int \<Rightarrow> int \<Rightarrow> rat" where
  "int_truediv a b = rnd (of_int a / of_int b)"

text \<open>\<open>round(x, 1)\<close> on a float: the float nearest to the decimal with one digit after
  the point that is nearest to \<open>x\<close> (ties to the even digit).\<close>

definition py_round1 :: "rat \<Rightarrow> rat" where
  "py_round1 x = rnd (of_int (rhe (x * 10)) / 10)"

text \<open>A variable that holds an \<open>int\<close> at one time and a \<open>float\<close> at another.
  \<open>int(x)\<close> leaves an \<open>int\<close> alone and truncates a float towards zero.\<close>

datatype py_num = PyInt int | PyFloat rat

definition trunc :: "rat \<Rightarrow> int" where
  "trunc x = (if 0 \<le> x then \<lfloor>x\<rfloor> else \<lceil>x\<rceil>)"

fun py_int :: "py_num \<Rightarrow> int" where
  "py_int (PyInt n) = n"
| "py_int (PyFloat x) = trunc x"

section \<open>Python lists and strings\<close>

text \<open>\<open>xs[:n]\<close>; a negative \<open>n\<close> counts from the end.\<close>

definition py_slice_to :: "int \<Rightarrow> 'a list \<Rightarrow> 'a list" where
  "py_slice_to n xs = (if 0 \<le> n then take (nat n) xs else take (length xs - nat (- n)) xs)"

text \<open>\<open>xs.sort(key=f, reverse=True)\<close>: the list is reversed, sorted by a stable
  ascending sort and reversed again, so elements with equal keys keep their order.\<close>

definition py_sort_desc :: "('a \<Rightarrow> 'b::linorder) \<Rightarrow> 'a list \<Rightarrow> 'a list" where
  "py_sort_desc f xs = rev (sort_key f (rev xs))"

text \<open>\<open>sep.join(xs)\<close>.\<close>

fun py_join :: "string \<Rightarrow> string list \<Rightarrow> string" where
  "py_join sep [] = []"
| "py_join sep [x] = x"
| "py_join sep (x # y # ys) = x @ sep @ py_join sep (y # ys)"

text \<open>\<open>p in s\<close> on strings: \<open>p\<close> occurs in \<open>s\<close> as a contiguous substring.\<close>

fun py_in_str :: "string \<Rightarrow> string \<Rightarrow> bool" where
  "py_in_str p [] = (p = [])"
| "py_in_str p (c # cs) = (prefix p (c # cs) \<or> py_in_str p cs)"

text \<open>\<open>next(i for i, x in enumerate(xs) if P x)\<close>: the first index, or no index.\<close>

fun first_index :: "('a \<Rightarrow> bool) \<Rightarrow> 'a list \<Rightarrow> nat option" where
  "first_index P [] = None"
| "first_index P (x # xs) =
     (if P x then Some 0 else (case first_index P xs of None \<Rightarrow> None | Some i \<Rightarrow> Some (Suc i)))"

section \<open>User profiles\<close>

text \<open>The profile is a \<open>dict\<close> read only through \<open>get(key, default)\<close>; a field is
  \<open>None\<close> when the key is absent.\<close>

record UserProfile =
  skills :: "string list option"
  experience_level :: "string option"
  education :: "string option"
  preferred_industries :: "string list option"
  interests :: "string list option"

definition get_or :: "'a option \<Rightarrow> 'a \<Rightarrow> 'a" where
  "get_or v dflt = (case v of None \<Rightarrow> dflt | Some x \<Rightarrow> x)"

section \<open>Job matcher (\<open>career_recommendation/recommendation_engine.py\<close>)\<close>

record Job =
  job_title :: string
  description :: string
  required_skills :: "string list"
  preferred_skills :: "string list"
  industries :: "string list"
  experience_levels :: "string list"
  education_requirements :: "string list"
  salary_range :: string
  growth_prospects :: string
  remote_friendly :: bool

definition job_database :: "Job list" where
  "job_database =
     [\<lparr>job_title = ''Data Scientist'',
       description = ''Analyze complex data to help organizations make informed decisions using statistical methods and machine learning'',
       required_skills = [''Python'', ''Machine Learning'', ''Statistics'', ''SQL'', ''Data Visualization'', ''R''],
       preferred_skills = [''Deep Learning'', ''Big Data'', ''Cloud Computing'', ''Tableau''],
       industries = [''Technology'', ''Finance'', ''Healthcare'', ''Consulting''],
       experience_levels = [''mid'', ''senior''],
       education_requirements = [''bachelor'', ''master'', ''phd''],
       salary_range = ''$80,000 - $150,000'',
       growth_prospects = ''High demand, 22% growth expected'',
       remote_friendly = True\<rparr>,
      \<lparr>job_title = ''Software Engineer'',
       description = ''Design, develop, and maintain software applications and systems'',
       required_skills = [''Programming'', ''Problem Solving'', ''System Design'', ''Git''],
       preferred_skills = [''JavaScript'', ''Python'', ''Java'', ''React'', ''Node.js''],
       industries = [''Technology'', ''Finance'', ''Healthcare'', ''Media''],
       experience_levels = [''entry'', ''mid'', ''senior''],
       education_requirements = [''bachelor'', ''master''],
       salary_range = ''$70,000 - $140,000'',
       growth_prospects = ''Excellent, 13% growth expected'',
       remote_friendly = True\<rparr>,
      \<lparr>job_title = ''Product Manager'',
       description = ''Lead product development from conception to launch, working with cross-functional teams'',
       required_skills = [''Product Strategy'', ''Project Management'', ''Communication'', ''Analytics''],
       preferred_skills = [''Agile'', ''User Research'', ''Data Analysis'', ''Leadership''],
       industries = [''Technology'', ''Retail'', ''Finance'', ''Healthcare''],
       experience_levels = [''mid'', ''senior''],
       education_requirements = [''bachelor'', ''master''],
       salary_range = ''$90,000 - $160,000'',
       growth_prospects = ''Strong demand, 15% growth expected'',
       remote_friendly = True\<rparr>,
      \<lparr>job_title = ''UX Designer'',
       description = ''Create user-centered designs for digital products and services'',
       required_skills = [''Design Thinking'', ''Prototyping'', ''User Research'', ''Wireframing''],
       preferred_skills = [''Figma'', ''Adobe Creative Suite'', ''HTML/CSS'', ''Psychology''],
       industries = [''Technology'', ''Media'', ''Retail'', ''Healthcare''],
       experience_levels = [''entry'', ''mid'', ''senior''],
       education_requirements = [''bachelor'', ''master''],
       salary_range = ''$65,000 - $120,000'',
       growth_prospects = ''Growing field, 18% growth expected'',
       remote_friendly = True\<rparr>,
      \<lparr>job_title = ''Cybersecurity Analyst'',
       description = ''Protect organizations from cyber threats and security breaches'',
       required_skills = [''Network Security'', ''Risk Assessment'', ''Incident Response'', ''Security Tools''],
       preferred_skills = [''Ethical Hacking'', ''Compliance'', ''Forensics'', ''Cloud Security''],
       industries = [''Technology'', ''Finance'', ''Government'', ''Healthcare''],
       experience_levels = [''entry'', ''mid'', ''senior''],
       education_requirements = [''bachelor'', ''master''],
       salary_range = ''$75,000 - $130,000'',
       growth_prospects = ''Very high demand, 28% growth expected'',
       remote_friendly = False\<rparr>,
      \<lparr>job_title = ''Digital Marketing Manager'',
       description = ''Develop and execute digital marketing strategies across multiple channels'',
       required_skills = [''Digital Marketing'', ''Analytics'', ''Content Strategy'', ''SEO/SEM''],
       preferred_skills = [''Social Media'', ''Email Marketing'', ''Google Analytics'', ''A/B Testing''],
       industries = [''Marketing'', ''Retail'', ''Technology'', ''Media''],
       experience_levels = [''mid'', ''senior''],
       education_requirements = [''bachelor'', ''master''],
       salary_range = ''$60,000 - $110,000'',
       growth_prospects = ''Steady growth, 12% growth expected'',
       remote_friendly = True\<rparr>]"

text \<open>
  The interest term uses scikit-learn: \<open>similarity text i\<close> stands for
  \<open>cosine_similarity(vectorizer.transform([text]), job_vectors[i:i+1])[0][0]\<close>, the
  cosine similarity between the TF-IDF vector of \<open>text\<close> and that of the \<open>i\<close>-th job,
  a finite float.  It is a parameter of the model.

  \<open>calculate_match_score\<close> looks the job up in \<open>job_database\<close> by title with \<open>next\<close>,
  which raises \<open>StopIteration\<close> when no job has that title.
\<close>

definition skill_match :: "string set \<Rightarrow> string set \<Rightarrow> rat" where
  "skill_match user_skills wanted =
     (if wanted \<noteq> {} then int_truediv (int (card (user_skills \<inter> wanted))) (int (card wanted))
      else 0)"

definition calculate_match_score ::
  "(string \<Rightarrow> nat \<Rightarrow> rat) \<Rightarrow> UserProfile \<Rightarrow> Job \<Rightarrow> py_error + rat" where
  "calculate_match_score similarity user_profile job =
     (let score = 0;
          user_skills = set (map lower (get_or (skills user_profile) []));
          required = set (map lower (required_skills job));
          preferred = set (map lower (preferred_skills job));
          required_match = skill_match user_skills required;
          preferred_match = skill_match user_skills preferred;
          skills_score =
            fl_mul (fl_add (fl_mul required_match (lit (7 / 10)))
                           (fl_mul preferred_match (lit (3 / 10))))
                   (lit (4 / 10));
          score = fl_add score skills_score;
          user_exp = lower (get_or (experience_level user_profile) '''');
          score = (if user_exp \<in> set (experience_levels job)
                   then fl_add score (lit (2 / 10)) else score);
          user_edu = lower (get_or (education user_profile) '''');
          score = (if user_edu \<in> set (education_requirements job)
                   then fl_add score (lit (15 / 100)) else score);
          user_industries = set (map lower (get_or (preferred_industries user_profile) []));
          job_industries = set (map lower (industries job));
          score = (if user_industries \<inter> job_industries \<noteq> {}
                   then fl_add score (lit (15 / 100)) else score);
          user_text = py_join '' '' (get_or (interests user_profile) [])
      in if user_text \<noteq> [] then
           (case first_index (\<lambda>j. job_title j = job_title job) job_database of
              None \<Rightarrow> Inl StopIteration
            | Some job_index \<Rightarrow>
                Inr (min (fl_mul (fl_add score (fl_mul (similarity user_text job_index) (lit (1 / 10))))
                                 100)
                         100))
         else Inr (min (fl_mul score 100) 100))"

record Recommendation =
  rec_job_title :: string
  match_percentage :: rat
  rec_description :: string
  rec_required_skills :: "string list"
  rec_salary_range :: string
  rec_growth_prospects :: string
  rec_remote_friendly :: bool
  rec_industries :: "string list"

definition recommendation :: "Job \<Rightarrow> rat \<Rightarrow> Recommendation" where
  "recommendation job match_score =
     \<lparr>rec_job_title = job_title job,
      match_percentage = py_round1 match_score,
      rec_description = description job,
      rec_required_skills = required_skills job,
      rec_salary_range = salary_range job,
      rec_growth_prospects = growth_prospects job,
      rec_remote_friendly = remote_friendly job,
      rec_industries = industries job\<rparr>"

text \<open>The loop \<open>for job in self.job_database\<close> that fills \<open>recommendations\<close>.\<close>

fun recommend_jobs ::
  "(string \<Rightarrow> nat \<Rightarrow> rat) \<Rightarrow> UserProfile \<Rightarrow> Job list \<Rightarrow> py_error + Recommendation list" where
  "recommend_jobs similarity user_profile [] = Inr []"
| "recommend_jobs similarity user_profile (job # jobs) =
     (case calculate_match_score similarity user_profile job of
        Inl e \<Rightarrow> Inl e
      | Inr match_score \<Rightarrow>
          (case recommend_jobs similarity user_profile jobs of
             Inl e \<Rightarrow> Inl e
           | Inr recs \<Rightarrow> Inr (recommendation job match_score # recs)))"

definition get_recommendations ::
  "(string \<Rightarrow> nat \<Rightarrow> rat) \<Rightarrow> UserProfile \<Rightarrow> int \<Rightarrow> py_error + Recommendation list" where
  "get_recommendations similarity user_profile top_n =
     (case recommend_jobs similarity user_profile job_database of
        Inl e \<Rightarrow> Inl e
      | Inr recommendations \<Rightarrow>
          Inr (py_slice_to top_n (py_sort_desc match_percentage recommendations)))"

text \<open>A recommendation corresponds to a job when every field copied from the job
  agrees with it.\<close>

definition from_job :: "Recommendation \<Rightarrow> Job \<Rightarrow> bool" where
  "from_job r job \<longleftrightarrow>
     rec_job_title r = job_title job \<and> rec_description r = description job \<and>
     rec_required_skills r = required_skills job \<and> rec_salary_range r = salary_range job \<and>
     rec_growth_prospects r = growth_prospects job \<and>
     rec_remote_friendly r = remote_friendly job \<and> rec_industries r = industries job"

section \<open>Skill gap analyzer (\<open>skill_analysis/skill_analyzer.py\<close>)\<close>

record SkillInfo =
  si_category :: string
  si_difficulty :: int
  si_market_demand :: int
  si_avg_learning_time_weeks :: int
  si_related_skills :: "string list"
  si_job_roles :: "string list"

definition skill_database :: "(string \<times> SkillInfo) list" where
  "skill_database =
     [(''Python'',
       \<lparr>si_category = ''Programming'', si_difficulty = 6, si_market_demand = 9,
        si_avg_learning_time_weeks = 12,
        si_related_skills = [''Data Science'', ''Machine Learning'', ''Web Development''],
        si_job_roles = [''Data Scientist'', ''Software Engineer'', ''Backend Developer'']\<rparr>),
      (''Machine Learning'',
       \<lparr>si_category = ''AI/Data Science'', si_difficulty = 8, si_market_demand = 10,
        si_avg_learning_time_weeks = 16,
        si_related_skills = [''Python'', ''Statistics'', ''Data Analysis''],
        si_job_roles = [''Data Scientist'', ''ML Engineer'', ''AI Researcher'']\<rparr>),
      (''JavaScript'',
       \<lparr>si_category = ''Programming'', si_difficulty = 5, si_market_demand = 9,
        si_avg_learning_time_weeks = 10,
        si_related_skills = [''HTML'', ''CSS'', ''React'', ''Node.js''],
        si_job_roles = [''Frontend Developer'', ''Full Stack Developer'', ''Web Developer'']\<rparr>),
      (''Project Management'',
       \<lparr>si_category = ''Management'', si_difficulty = 6, si_market_demand = 8,
        si_avg_learning_time_weeks = 8,
        si_related_skills = [''Leadership'', ''Communication'', ''Agile''],
        si_job_roles = [''Project Manager'', ''Product Manager'', ''Scrum Master'']\<rparr>),
      (''Data Analysis'',
       \<lparr>si_category = ''Analytics'', si_difficulty = 6, si_market_demand = 9,
        si_avg_learning_time_weeks = 10,
        si_related_skills = [''SQL'', ''Excel'', ''Statistics'', ''Visualization''],
        si_job_roles = [''Data Analyst'', ''Business Analyst'', ''Research Analyst'']\<rparr>),
      (''Cloud Computing'',
       \<lparr>si_category = ''Infrastructure'', si_difficulty = 7, si_market_demand = 9,
        si_avg_learning_time_weeks = 14,
        si_related_skills = [''AWS'', ''Azure'', ''DevOps'', ''Networking''],
        si_job_roles = [''Cloud Engineer'', ''DevOps Engineer'', ''Solutions Architect'']\<rparr>),
      (''Communication'',
       \<lparr>si_category = ''Soft Skills'', si_difficulty = 4, si_market_demand = 10,
        si_avg_learning_time_weeks = 6,
        si_related_skills = [''Leadership'', ''Presentation'', ''Writing''],
        si_job_roles = [''Manager'', ''Consultant'', ''Sales Representative'']\<rparr>),
      (''Cybersecurity'',
       \<lparr>si_category = ''Security'', si_difficulty = 8, si_market_demand = 10,
        si_avg_learning_time_weeks = 18,
        si_related_skills = [''Networking'', ''Risk Assessment'', ''Compliance''],
        si_job_roles = [''Security Analyst'', ''Security Engineer'', ''CISO'']\<rparr>)]"

definition learning_resources_table :: "(string \<times> string list) list" where
  "learning_resources_table =
     [(''Python'',
       [''Python.org Official Tutorial'', ''Codecademy Python Course'', ''Real Python'',
        ''Python Crash Course Book'', ''Automate the Boring Stuff'']),
      (''Machine Learning'',
       [''Coursera ML Course (Andrew Ng)'', ''Fast.ai Practical Deep Learning'', ''Kaggle Learn'',
        ''Scikit-learn Documentation'', ''Hands-On Machine Learning Book'']),
      (''JavaScript'',
       [''MDN Web Docs'', ''freeCodeCamp'', ''JavaScript.info'', ''Eloquent JavaScript Book'',
        ''You Don't Know JS Series'']),
      (''Project Management'',
       [''PMI Certification Courses'', ''Coursera Project Management'', ''Agile Alliance Resources'',
        ''Scrum.org Training'', ''LinkedIn Learning PM Courses'']),
      (''Data Analysis'',
       [''Kaggle Learn Data Analysis'', ''Coursera Data Analysis Specialization'',
        ''Excel Training Resources'', ''Tableau Public Training'', ''Google Analytics Academy'']),
      (''Cloud Computing'',
       [''AWS Training and Certification'', ''Microsoft Azure Learning'', ''Google Cloud Training'',
        ''Cloud Guru Courses'', ''Linux Academy'']),
      (''Communication'',
       [''Toastmasters International'', ''Coursera Communication Courses'', ''Dale Carnegie Training'',
        ''TED Talks on Communication'', ''Harvard Business Review Articles'']),
      (''Cybersecurity'',
       [''Cybrary Free Courses'', ''SANS Training'', ''CompTIA Security+ Certification'',
        ''Offensive Security Training'', ''NIST Cybersecurity Framework''])]"

text \<open>\<open>_estimate_user_level\<close>.  \<open>base_level\<close> is an \<open>int\<close>, and stays one when \<open>1\<close>
  is added; adding \<open>0.5\<close> makes it a float.\<close>

definition estimate_user_level :: "string \<Rightarrow> UserProfile \<Rightarrow> int" where
  "estimate_user_level skill_name user_profile =
     (let exp_level = get_or (experience_level user_profile) ''entry'';
          base_level = py_get [(''entry'', 3), (''mid'', 5), (''senior'', 7), (''executive'', 8)]
                         exp_level (3 :: int);
          edu = get_or (education user_profile) '''';
          base_level =
            (if py_in_str ''phd'' (lower edu) then PyInt (base_level + 1)
             else if py_in_str ''master'' (lower edu)
             then PyFloat (fl_add (fl_of_int base_level) (lit (1 / 2)))
             else PyInt base_level)
      in min (py_int base_level) 10)"

text \<open>\<open>list(set(xs))\<close> lists each element of \<open>xs\<close> once, in an order that depends on the
  hash seed of the process; the function doing so is a parameter (\<open>set_list\<close>) of the
  model.\<close>

definition role_mapping :: "(string \<times> string list) list" where
  "role_mapping =
     [(''technology'', [''Software Engineer'', ''Data Scientist'']),
      (''data'', [''Data Scientist'', ''Data Analyst'']),
      (''management'', [''Project Manager'', ''Product Manager'']),
      (''design'', [''UX Designer'', ''Product Designer'']),
      (''security'', [''Cybersecurity Analyst'', ''Security Engineer''])]"

definition get_target_roles_from_interests ::
  "(string list \<Rightarrow> string list) \<Rightarrow> UserProfile \<Rightarrow> string list" where
  "get_target_roles_from_interests set_list user_profile =
     (let interest_list = map lower (get_or (interests user_profile) []);
          target_roles =
            concat (map (\<lambda>interest.
                      concat (map (\<lambda>(key, roles). if py_in_str key interest then roles else [])
                                role_mapping))
                    interest_list)
      in if target_roles \<noteq> [] then set_list target_roles
         else [''Software Engineer'', ''Data Analyst''])"

definition role_requirements :: "(string \<times> (string \<times> int) list) list" where
  "role_requirements =
     [(''Data Scientist'',
       [(''Python'', 8), (''Machine Learning'', 8), (''Statistics'', 7),
        (''Data Analysis'', 8), (''Communication'', 6)]),
      (''Software Engineer'',
       [(''Programming'', 8), (''JavaScript'', 7), (''Python'', 6),
        (''Problem Solving'', 8), (''Communication'', 6)]),
      (''Project Manager'',
       [(''Project Management'', 9), (''Communication'', 9), (''Leadership'', 8),
        (''Agile'', 7), (''Risk Management'', 6)]),
      (''Data Analyst'',
       [(''Data Analysis'', 8), (''SQL'', 7), (''Excel'', 7),
        (''Statistics'', 6), (''Communication'', 7)]),
      (''Cybersecurity Analyst'',
       [(''Cybersecurity'', 8), (''Network Security'', 7), (''Risk Assessment'', 7),
        (''Incident Response'', 6), (''Compliance'', 6)])]"

definition get_required_skills_for_role :: "string \<Rightarrow> (string \<times> int) list" where
  "get_required_skills_for_role role = py_get role_requirements role []"

record SkillGap =
  skill :: string
  current_level :: int
  required_level :: int
  gap_size :: int
  importance :: string
  importance_score :: rat
  learning_resources :: "string list"
  estimated_learning_time :: int
  market_demand :: int
  difficulty :: int
  category :: string

text \<open>The expression \<open>(market_demand * 0.7 + (10 - difficulty) * 0.3) * gap_size\<close>.\<close>

definition importance_of :: "int \<Rightarrow> int \<Rightarrow> int \<Rightarrow> rat" where
  "importance_of md diff gap =
     fl_mul (fl_add (fl_mul (fl_of_int md) (lit (7 / 10)))
                    (fl_mul (fl_of_int (10 - diff)) (lit (3 / 10))))
            (fl_of_int gap)"

definition priority_of :: "rat \<Rightarrow> string" where
  "priority_of score =
     (if 7 \<le> score then ''High'' else if 4 \<le> score then ''Medium'' else ''Low'')"

definition create_skill_gap_info :: "string \<Rightarrow> int \<Rightarrow> int \<Rightarrow> UserProfile \<Rightarrow> SkillGap" where
  "create_skill_gap_info skill_name cur req user_profile =
     (let skill_info = map_of skill_database skill_name;
          gap = req - cur;
          md = (case skill_info of None \<Rightarrow> 5 | Some si \<Rightarrow> si_market_demand si);
          diff = (case skill_info of None \<Rightarrow> 5 | Some si \<Rightarrow> si_difficulty si);
          score = importance_of md diff gap
      in \<lparr>skill = skill_name,
          current_level = cur,
          required_level = req,
          gap_size = gap,
          importance = priority_of score,
          importance_score = score,
          learning_resources = py_get learning_resources_table skill_name [],
          estimated_learning_time =
            (case skill_info of None \<Rightarrow> 8 | Some si \<Rightarrow> si_avg_learning_time_weeks si),
          market_demand = md,
          difficulty = diff,
          category = (case skill_info of None \<Rightarrow> ''General'' | Some si \<Rightarrow> si_category si)\<rparr>)"

text \<open>The dictionary \<open>user_skills\<close>: lower-cased skill name to estimated level, a later
  entry of the profile's list overwriting an earlier one with the same key.\<close>

definition user_skills_of :: "UserProfile \<Rightarrow> (string \<rightharpoonup> int)" where
  "user_skills_of user_profile =
     map_of (rev (map (\<lambda>s. (lower s, estimate_user_level s user_profile))
                      (get_or (skills user_profile) [])))"

definition current_level_of :: "(string \<rightharpoonup> int) \<Rightarrow> string \<Rightarrow> int" where
  "current_level_of user_skills skill_name =
     (case user_skills (lower skill_name) of None \<Rightarrow> 0 | Some l \<Rightarrow> l)"

text \<open>The inner loop \<open>for skill_name, required_level in required_skills.items()\<close>; the
  state is the pair of \<open>skill_gaps\<close> and \<open>analyzed_skills\<close>.  The name is added to
  \<open>analyzed_skills\<close> inside the branch that appends the gap.\<close>

fun scan_required_skills ::
  "UserProfile \<Rightarrow> (string \<rightharpoonup> int) \<Rightarrow> (string \<times> int) list \<Rightarrow>
   SkillGap list \<times> string set \<Rightarrow> SkillGap list \<times> string set" where
  "scan_required_skills user_profile user_skills [] st = st"
| "scan_required_skills user_profile user_skills ((skill_name, req) # rest) (skill_gaps, analyzed_skills) =
     (if lower skill_name \<in> analyzed_skills
      then scan_required_skills user_profile user_skills rest (skill_gaps, analyzed_skills)
      else if current_level_of user_skills skill_name < req
      then scan_required_skills user_profile user_skills rest
             (skill_gaps @ [create_skill_gap_info skill_name (current_level_of user_skills skill_name)
                              req user_profile],
              insert (lower skill_name) analyzed_skills)
      else scan_required_skills user_profile user_skills rest (skill_gaps, analyzed_skills))"

text \<open>The outer loop \<open>for role in target_roles\<close>.\<close>

fun scan_roles ::
  "UserProfile \<Rightarrow> (string \<rightharpoonup> int) \<Rightarrow> string list \<Rightarrow>
   SkillGap list \<times> string set \<Rightarrow> SkillGap list \<times> string set" where
  "scan_roles user_profile user_skills [] st = st"
| "scan_roles user_profile user_skills (role # roles) st =
     scan_roles user_profile user_skills roles
       (scan_required_skills user_profile user_skills (get_required_skills_for_role role) st)"

text \<open>\<open>target_roles\<close> defaults to \<open>None\<close>; \<open>not target_roles\<close> holds for \<open>None\<close> and
  for the empty list.\<close>

definition effective_roles ::
  "(string list \<Rightarrow> string list) \<Rightarrow> UserProfile \<Rightarrow> string list option \<Rightarrow> string list" where
  "effective_roles set_list user_profile target_roles =
     (case target_roles of
        None \<Rightarrow> get_target_roles_from_interests set_list user_profile
      | Some [] \<Rightarrow> get_target_roles_from_interests set_list user_profile
      | Some (r # rs) \<Rightarrow> r # rs)"

definition analyze_skill_gaps ::
  "(string list \<Rightarrow> string list) \<Rightarrow> UserProfile \<Rightarrow> string list option \<Rightarrow> SkillGap list" where
  "analyze_skill_gaps set_list user_profile target_roles =
     (let user_skills = user_skills_of user_profile;
          roles = effective_roles set_list user_profile target_roles;
          skill_gaps = fst (scan_roles user_profile user_skills roles ([], {}))
      in py_slice_to 10 (py_sort_desc (\<lambda>g. (importance_score g, gap_size g)) skill_gaps))"

text \<open>Two readings of ``the target level of a skill over a list of roles'', used to
  state the deduplication: the level in the first requirement, in the order in which
  the loops visit them, whose lower-cased name is that of the skill, and the level in
  the first such requirement that exceeds the current level.\<close>

definition all_requirements :: "string list \<Rightarrow> (string \<times> int) list" where
  "all_requirements roles = concat (map get_required_skills_for_role roles)"

definition first_requirement :: "string list \<Rightarrow> string \<Rightarrow> int option" where
  "first_requirement roles name =
     map_option snd (find (\<lambda>(k, v). lower k = lower name) (all_requirements roles))"

definition first_unmet_requirement :: "(string \<rightharpoonup> int) \<Rightarrow> string list \<Rightarrow> string \<Rightarrow> int option" where
  "first_unmet_requirement user_skills roles name =
     map_option snd
       (find (\<lambda>(k, v). lower k = lower name \<and> current_level_of user_skills k < v)
             (all_requirements roles))"

text \<open>The levels recorded in a gap, for stating results.\<close>

definition gap_summary :: "SkillGap \<Rightarrow> string \<times> int \<times> int \<times> int" where
  "gap_summary g = (skill g, current_level g, required_level g, gap_size g)"

text \<open>The invariant of the two loops of \<open>analyze_skill_gaps\<close>, over the requirements
  \<open>visited\<close> so far: a gap records the current level of its skill, a smaller current
  than required level and their difference, and its requirement is the first visited
  one for its lower-cased name that exceeds the current level; \<open>analyzed_skills\<close> holds
  the lower-cased names of the gaps, each once, and the name of every visited
  requirement that exceeds the current level.\<close>

definition gap_ok :: "(string \<rightharpoonup> int) \<Rightarrow> (string \<times> int) list \<Rightarrow> SkillGap \<Rightarrow> bool" where
  "gap_ok user_skills visited g \<longleftrightarrow>
     current_level g = current_level_of user_skills (skill g) \<and>
     current_level g < required_level g \<and>
     gap_size g = required_level g - current_level g \<and>
     find (\<lambda>(k, v). lower k = lower (skill g) \<and> current_level_of user_skills k < v) visited =
       Some (skill g, required_level g)"

definition scan_inv ::
  "(string \<rightharpoonup> int) \<Rightarrow> (string \<times> int) list \<Rightarrow> SkillGap list \<times> string set \<Rightarrow> bool" where
  "scan_inv user_skills visited st \<longleftrightarrow>
     snd st = (\<lambda>g. lower (skill g)) ` set (fst st) \<and>
     distinct (map (\<lambda>g. lower (skill g)) (fst st)) \<and>
     (\<forall>g \<in> set (fst st). gap_ok user_skills visited g) \<and>
     (\<forall>(k, v) \<in> set visited. current_level_of user_skills k < v \<longrightarrow> lower k \<in> snd st)"

text \<open>The reading of the specification of the level estimate, with both bonuses
  added before truncating.\<close>

definition tier_base :: "string \<Rightarrow> int option" where
  "tier_base tier = map_of [(''entry'', 3), (''mid'', 5), (''senior'', 7), (''executive'', 8)] tier"

definition spec_level :: "int \<Rightarrow> string \<Rightarrow> int" where
  "spec_level base edu =
     min (trunc (of_int base + (if sublist ''phd'' (lower edu) then 1 else 0)
                             + (if sublist ''master'' (lower edu) then 1 / 2 else 0)))
         10"

section \<open>Intent classifier (\<open>chatbot/career_chatbot.py\<close>)\<close>

text \<open>The chatbot object: its conversation log of (role, message) pairs and its
  context dictionary.\<close>

record CareerChatbot =
  conversation_history :: "(string \<times> string) list"
  user_context :: "(string \<times> string) list"

definition intent_patterns :: "(string \<times> string list) list" where
  "intent_patterns =
     [(''career_change'',
       [''career change'', ''switch career'', ''change job'', ''new career'',
        ''different field'', ''career transition'', ''pivot'']),
      (''salary_negotiation'',
       [''salary'', ''negotiate'', ''pay raise'', ''compensation'', ''money'',
        ''wage'', ''income'', ''raise'']),
      (''skill_development'',
       [''learn'', ''skill'', ''course'', ''training'', ''education'',
        ''improve'', ''develop'', ''certification'']),
      (''job_search'',
       [''job search'', ''find job'', ''looking for'', ''apply'', ''hiring'',
        ''employment'', ''job hunting'', ''opportunities'']),
      (''interview_prep'',
       [''interview'', ''preparation'', ''questions'', ''interview tips'',
        ''job interview'', ''behavioral questions'']),
      (''networking'',
       [''network'', ''connections'', ''professional relationships'',
        ''meet people'', ''industry contacts'', ''linkedin'']),
      (''work_life_balance'',
       [''work life balance'', ''stress'', ''burnout'', ''time management'',
        ''balance'', ''wellness'', ''mental health''])]"

text \<open>The inner loop \<open>for pattern in patterns\<close>: does some pattern occur in the
  message?\<close>

fun match_patterns :: "string list \<Rightarrow> string \<Rightarrow> bool" where
  "match_patterns [] message_lower = False"
| "match_patterns (pattern # patterns) message_lower =
     (if py_in_str pattern message_lower then True else match_patterns patterns message_lower)"

text \<open>The outer loop \<open>for intent, patterns in intent_patterns.items()\<close>, returning at
  the first match.\<close>

fun match_intents :: "(string \<times> string list) list \<Rightarrow> string \<Rightarrow> string option" where
  "match_intents [] message_lower = None"
| "match_intents ((intent, patterns) # rest) message_lower =
     (if match_patterns patterns message_lower then Some intent
      else match_intents rest message_lower)"

definition analyze_intent :: "CareerChatbot \<Rightarrow> string \<Rightarrow> string" where
  "analyze_intent self message =
     (let message_lower = lower message
      in case match_intents intent_patterns message_lower of
           Some intent \<Rightarrow> intent
         | None \<Rightarrow> ''general'')"

section \<open>Properties of the personality classifier\<close>

lemma upper_char_A: "upper_char c = CHR ''A'' \<longleftrightarrow> c = CHR ''a'' \<or> c = CHR ''A''"
  by (simp add: upper_char_def)

lemma upper_char_B: "upper_char c = CHR ''B'' \<longleftrightarrow> c = CHR ''b'' \<or> c = CHR ''B''"
  by (simp add: upper_char_def)

lemma upper_char_C: "upper_char c = CHR ''C'' \<longleftrightarrow> c = CHR ''c'' \<or> c = CHR ''C''"
  by (simp add: upper_char_def)

lemma upper_char_D: "upper_char c = CHR ''D'' \<longleftrightarrow> c = CHR ''d'' \<or> c = CHR ''D''"
  by (simp add: upper_char_def)

lemma upper_eq_single: "upper s = [c] \<longleftrightarrow> (\<exists>d. s = [d] \<and> upper_char d = c)"
  by (cases s) (auto simp: upper_def)

lemma upper_A: "upper s = ''A'' \<longleftrightarrow> s = ''a'' \<or> s = ''A''"
  by (auto simp: upper_eq_single upper_char_A)

lemma upper_B: "upper s = ''B'' \<longleftrightarrow> s = ''b'' \<or> s = ''B''"
  by (auto simp: upper_eq_single upper_char_B)

lemma upper_C: "upper s = ''C'' \<longleftrightarrow> s = ''c'' \<or> s = ''C''"
  by (auto simp: upper_eq_single upper_char_C)

lemma upper_D: "upper s = ''D'' \<longleftrightarrow> s = ''d'' \<or> s = ''D''"
  by (auto simp: upper_eq_single upper_char_D)

lemma tally_answer_scores:
  "tally_answer x [(''RED'', r), (''YELLOW'', y), (''GREEN'', g), (''BLUE'', b)] =
     Inr [(''RED'', r + (if x = ''a'' \<or> x = ''A'' then 1 else 0)),
          (''YELLOW'', y + (if x = ''b'' \<or> x = ''B'' then 1 else 0)),
          (''GREEN'', g + (if x = ''c'' \<or> x = ''C'' then 1 else 0)),
          (''BLUE'', b + (if x = ''d'' \<or> x = ''D'' then 1 else 0))]"
  by (auto simp: tally_answer_def upper_A upper_B upper_C upper_D)

lemma tally_scores:
  "tally xs [(''RED'', r), (''YELLOW'', y), (''GREEN'', g), (''BLUE'', b)] =
     Inr [(''RED'', r + int (length (filter (\<lambda>a. a = ''a'' \<or> a = ''A'') xs))),
          (''YELLOW'', y + int (length (filter (\<lambda>a. a = ''b'' \<or> a = ''B'') xs))),
          (''GREEN'', g + int (length (filter (\<lambda>a. a = ''c'' \<or> a = ''C'') xs))),
          (''BLUE'', b + int (length (filter (\<lambda>a. a = ''d'' \<or> a = ''D'') xs)))]"
proof (induction xs arbitrary: r y g b)
  case Nil
  show ?case by simp
next
  case (Cons x xs)
  show ?case
    unfolding tally.simps tally_answer_scores sum.case Cons.IH
    by simp
qed

lemma py_max_scores:
  "py_max snd [(''RED'', r), (''YELLOW'', y), (''GREEN'', g), (''BLUE'', b)] = Inr item
     \<Longrightarrow> fst item = priority_winner r y g b"
  by (auto simp: py_max_def priority_winner_def split: if_splits)

lemma py_max_scores_Inr:
  "\<exists>item. py_max snd [(''RED'', r), (''YELLOW'', y), (''GREEN'', g), (''BLUE'', b)] = Inr item"
  by (simp add: py_max_def)

lemma priority_winner_cases:
  "priority_winner r y g b \<in> {''RED'', ''YELLOW'', ''GREEN'', ''BLUE''}"
  by (simp add: priority_winner_def)

lemma CAREER_MAP_winner:
  "py_getitem CAREER_MAP (priority_winner r y g b) =
     Inr (py_get CAREER_MAP (priority_winner r y g b) [])"
  using priority_winner_cases [of r y g b]
  by (auto simp: py_getitem_def py_get_def CAREER_MAP_def)

lemma analyze_personality_result:
  "analyze_personality responses =
     Inr \<lparr>dominant_color =
            priority_winner (count_letter ''a'' ''A'' responses) (count_letter ''b'' ''B'' responses)
              (count_letter ''c'' ''C'' responses) (count_letter ''d'' ''D'' responses),
          scores = [(''RED'', count_letter ''a'' ''A'' responses),
                    (''YELLOW'', count_letter ''b'' ''B'' responses),
                    (''GREEN'', count_letter ''c'' ''C'' responses),
                    (''BLUE'', count_letter ''d'' ''D'' responses)],
          career_suggestions =
            py_get CAREER_MAP
              (priority_winner (count_letter ''a'' ''A'' responses) (count_letter ''b'' ''B'' responses)
                 (count_letter ''c'' ''C'' responses) (count_letter ''d'' ''D'' responses)) [],
          strengths =
            get_strengths
              (priority_winner (count_letter ''a'' ''A'' responses) (count_letter ''b'' ''B'' responses)
                 (count_letter ''c'' ''C'' responses) (count_letter ''d'' ''D'' responses)),
          weaknesses =
            get_weaknesses
              (priority_winner (count_letter ''a'' ''A'' responses) (count_letter ''b'' ''B'' responses)
                 (count_letter ''c'' ''C'' responses) (count_letter ''d'' ''D'' responses))\<rparr>"
proof -
  let ?r = "count_letter ''a'' ''A'' responses" and ?y = "count_letter ''b'' ''B'' responses"
  let ?g = "count_letter ''c'' ''C'' responses" and ?b = "count_letter ''d'' ''D'' responses"
  have t: "tally (map snd responses) [(''RED'', 0), (''YELLOW'', 0), (''GREEN'', 0), (''BLUE'', 0)] =
             Inr [(''RED'', ?r), (''YELLOW'', ?y), (''GREEN'', ?g), (''BLUE'', ?b)]"
    unfolding tally_scores count_letter_def by simp
  obtain item where m: "py_max snd [(''RED'', ?r), (''YELLOW'', ?y), (''GREEN'', ?g), (''BLUE'', ?b)] = Inr item"
    using py_max_scores_Inr by blast
  have w: "fst item = priority_winner ?r ?y ?g ?b"
    using py_max_scores [OF m] .
  show ?thesis
    unfolding analyze_personality_def t sum.case m Let_def w CAREER_MAP_winner
    by simp
qed

lemma priority_winner_is_max:
  "priority_winner r y g b = ''RED'' \<longleftrightarrow> y \<le> r \<and> g \<le> r \<and> b \<le> r"
  "priority_winner r y g b = ''YELLOW'' \<longleftrightarrow> r < y \<and> g \<le> y \<and> b \<le> y"
  "priority_winner r y g b = ''GREEN'' \<longleftrightarrow> r < g \<and> y < g \<and> b \<le> g"
  "priority_winner r y g b = ''BLUE'' \<longleftrightarrow> r < b \<and> y < b \<and> g < b"
  by (auto simp: priority_winner_def)

text \<open>
  Claim C8.  \<open>analyze_personality\<close> never raises; the score stored under RED, YELLOW,
  GREEN, BLUE is the number of answers equal to \<open>a\<close>/\<open>A\<close>, \<open>b\<close>/\<open>B\<close>, \<open>c\<close>/\<open>C\<close>,
  \<open>d\<close>/\<open>D\<close> (every other answer is ignored); the dominant colour is the one with the
  largest count, a tie going to the first of RED, YELLOW, GREEN, BLUE; and for the
  responses \<open>{0: "a", 1: "A", 2: "b"}\<close> the counts are 2, 1, 0, 0 and the dominant colour
  is RED.
\<close>

theorem analyze_personality_tally_and_dominant:
  "(\<exists>res. analyze_personality responses = Inr res \<and>
      scores res = [(''RED'', count_letter ''a'' ''A'' responses),
                    (''YELLOW'', count_letter ''b'' ''B'' responses),
                    (''GREEN'', count_letter ''c'' ''C'' responses),
                    (''BLUE'', count_letter ''d'' ''D'' responses)] \<and>
      dominant_color res =
        priority_winner (count_letter ''a'' ''A'' responses) (count_letter ''b'' ''B'' responses)
          (count_letter ''c'' ''C'' responses) (count_letter ''d'' ''D'' responses)) \<and>
   (\<exists>res. analyze_personality [(0, ''a''), (1, ''A''), (2, ''b'')] = Inr res \<and>
      scores res = [(''RED'', 2), (''YELLOW'', 1), (''GREEN'', 0), (''BLUE'', 0)] \<and>
      dominant_color res = ''RED'')"
proof
  show "\<exists>res. analyze_personality responses = Inr res \<and>
      scores res = [(''RED'', count_letter ''a'' ''A'' responses),
                    (''YELLOW'', count_letter ''b'' ''B'' responses),
                    (''GREEN'', count_letter ''c'' ''C'' responses),
                    (''BLUE'', count_letter ''d'' ''D'' responses)] \<and>
      dominant_color res =
        priority_winner (count_letter ''a'' ''A'' responses) (count_letter ''b'' ''B'' responses)
          (count_letter ''c'' ''C'' responses) (count_letter ''d'' ''D'' responses)"
    unfolding analyze_personality_result by simp
  show "\<exists>res. analyze_personality [(0, ''a''), (1, ''A''), (2, ''b'')] = Inr res \<and>
      scores res = [(''RED'', 2), (''YELLOW'', 1), (''GREEN'', 0), (''BLUE'', 0)] \<and>
      dominant_color res = ''RED''"
    unfolding analyze_personality_result
    by (simp add: count_letter_def priority_winner_def)
qed

theorem analyze_personality_tally_and_dominant_witness:
  "\<exists>res. analyze_personality [(0, ''D''), (1, ''x''), (2, ''c''), (3, ''d''), (4, ''C'')] = Inr res \<and>
      scores res = [(''RED'', 0), (''YELLOW'', 0), (''GREEN'', 2), (''BLUE'', 2)] \<and>
      dominant_color res = ''GREEN''"
  using analyze_personality_tally_and_dominant
          [of "[(0, ''D''), (1, ''x''), (2, ''c''), (3, ''d''), (4, ''C'')]"]
  by (simp add: count_letter_def priority_winner_def)

text \<open>
  Claim C10.  When no answer is one of \<open>a\<close>, \<open>A\<close>, \<open>b\<close>, \<open>B\<close>, \<open>c\<close>, \<open>C\<close>, \<open>d\<close>,
  \<open>D\<close> (in particular when there is no answer at all), \<open>analyze_personality\<close> raises
  nothing and returns RED with all four counts 0 and with the career suggestions,
  strengths and weaknesses listed for RED.
\<close>

theorem analyze_personality_no_valid_answer:
  assumes "\<forall>a \<in> set (map snd responses).
             a \<notin> {''a'', ''A'', ''b'', ''B'', ''c'', ''C'', ''d'', ''D''}"
  shows "analyze_personality responses =
           Inr \<lparr>dominant_color = ''RED'',
                scores = [(''RED'', 0), (''YELLOW'', 0), (''GREEN'', 0), (''BLUE'', 0)],
                career_suggestions =
                  [''Management'', ''Entrepreneurship'', ''Sales Leadership'', ''Project Management''],
                strengths = [''Leadership'', ''Decision-making'', ''Results-oriented''],
                weaknesses = [''Impatience'', ''Dominating'']\<rparr>"
proof -
  have none: "filter (\<lambda>a. a = lo \<or> a = up) (map snd responses) = []"
    if "lo \<in> {''a'', ''b'', ''c'', ''d''}" "up \<in> {''A'', ''B'', ''C'', ''D''}" for lo up
    using assms that by (auto simp: filter_empty_conv)
  have c: "count_letter ''a'' ''A'' responses = 0" "count_letter ''b'' ''B'' responses = 0"
    "count_letter ''c'' ''C'' responses = 0" "count_letter ''d'' ''D'' responses = 0"
    unfolding count_letter_def by (simp_all add: none del: filter_map)
  have w: "priority_winner 0 0 0 0 = ''RED''"
    by (simp add: priority_winner_def)
  show ?thesis
    unfolding analyze_personality_result c w
    by (simp add: py_get_def CAREER_MAP_def get_strengths_def get_weaknesses_def)
qed

theorem analyze_personality_no_valid_answer_witness:
  "analyze_personality [] =
     Inr \<lparr>dominant_color = ''RED'',
          scores = [(''RED'', 0), (''YELLOW'', 0), (''GREEN'', 0), (''BLUE'', 0)],
          career_suggestions =
            [''Management'', ''Entrepreneurship'', ''Sales Leadership'', ''Project Management''],
          strengths = [''Leadership'', ''Decision-making'', ''Results-oriented''],
          weaknesses = [''Impatience'', ''Dominating'']\<rparr> \<and>
   analyze_personality [(0, ''E''), (1, ''ab''), (2, '''')] =
     Inr \<lparr>dominant_color = ''RED'',
          scores = [(''RED'', 0), (''YELLOW'', 0), (''GREEN'', 0), (''BLUE'', 0)],
          career_suggestions =
            [''Management'', ''Entrepreneurship'', ''Sales Leadership'', ''Project Management''],
          strengths = [''Leadership'', ''Decision-making'', ''Results-oriented''],
          weaknesses = [''Impatience'', ''Dominating'']\<rparr>"
  using analyze_personality_no_valid_answer [of "[]"]
        analyze_personality_no_valid_answer [of "[(0, ''E''), (1, ''ab''), (2, '''')]"]
  by simp

section \<open>Properties of the intent classifier\<close>

lemma py_in_str_sublist: "py_in_str p s \<longleftrightarrow> sublist p s"
  by (induction s) (auto simp: sublist_Cons_right)

lemma match_patterns_iff: "match_patterns ps m \<longleftrightarrow> (\<exists>p\<in>set ps. sublist p m)"
  by (induction ps) (auto simp: py_in_str_sublist)

lemma match_intents_find:
  "match_intents xs m = map_option fst (find (\<lambda>(intent, patterns). \<exists>p\<in>set patterns. sublist p m) xs)"
  by (induction xs) (auto simp: match_patterns_iff)

text \<open>
  Claim C7.  \<open>_analyze_intent\<close> lower-cases the message and returns the first intent of
  the table, whose order is career_change, salary_negotiation, skill_development,
  job_search, interview_prep, networking, work_life_balance, that has a pattern
  occurring as a substring of the lower-cased message, and \<open>general\<close> when there is
  none.  The result does not depend on the state of the chatbot object, so the same
  text yields the same intent on every call.
\<close>

theorem analyze_intent_first_match:
  "analyze_intent self message =
     (case find (\<lambda>(intent, patterns). \<exists>p\<in>set patterns. sublist p (lower message)) intent_patterns of
        Some (intent, patterns) \<Rightarrow> intent
      | None \<Rightarrow> ''general'') \<and>
   map fst intent_patterns =
     [''career_change'', ''salary_negotiation'', ''skill_development'', ''job_search'',
      ''interview_prep'', ''networking'', ''work_life_balance''] \<and>
   analyze_intent self message = analyze_intent self' message"
proof (intro conjI)
  show "analyze_intent self message =
     (case find (\<lambda>(intent, patterns). \<exists>p\<in>set patterns. sublist p (lower message)) intent_patterns of
        Some (intent, patterns) \<Rightarrow> intent
      | None \<Rightarrow> ''general'')"
    unfolding analyze_intent_def Let_def match_intents_find
    by (simp split: option.splits)
  show "map fst intent_patterns =
     [''career_change'', ''salary_negotiation'', ''skill_development'', ''job_search'',
      ''interview_prep'', ''networking'', ''work_life_balance'']"
    by (simp add: intent_patterns_def)
  show "analyze_intent self message = analyze_intent self' message"
    by (simp add: analyze_intent_def)
qed

theorem analyze_intent_first_match_witness:
  "analyze_intent \<lparr>conversation_history = [], user_context = []\<rparr>
     ''Should I ask for a RAISE before my New Career starts?'' = ''career_change'' \<and>
   analyze_intent \<lparr>conversation_history = [(''user'', ''hi'')], user_context = []\<rparr>
     ''Should I ask for a RAISE before my New Career starts?'' = ''career_change'' \<and>
   analyze_intent \<lparr>conversation_history = [], user_context = []\<rparr> ''Hello there'' = ''general''"
  using analyze_intent_first_match
          [of "\<lparr>conversation_history = [], user_context = []\<rparr>"
              "''Should I ask for a RAISE before my New Career starts?''"
              "\<lparr>conversation_history = [(''user'', ''hi'')], user_context = []\<rparr>"]
        analyze_intent_first_match
          [of "\<lparr>conversation_history = [], user_context = []\<rparr>" "''Hello there''"]
  by code_simp

section \<open>Properties of the float model\<close>

lemma bit_len_bounds:
  "0 < n \<Longrightarrow> 0 < bit_len n \<and> 2 ^ nat (bit_len n - 1) \<le> n \<and> n < 2 ^ nat (bit_len n)"
proof (induction n rule: bit_len.induct)
  case (1 n)
  show ?case
  proof (cases "n div 2 = 0")
    case True
    with 1(2) have n1: "n = 1" by presburger
    have "bit_len 1 = 1" by (simp add: bit_len.simps)
    with n1 show ?thesis by simp
  next
    case False
    with 1(2) have pos: "0 < n div 2" by presburger
    from 1(1) 1(2) pos have IH: "0 < bit_len (n div 2)"
      "2 ^ nat (bit_len (n div 2) - 1) \<le> n div 2" "n div 2 < 2 ^ nat (bit_len (n div 2))"
      by simp_all
    have bl: "bit_len n = 1 + bit_len (n div 2)"
      using 1(2) by (subst bit_len.simps) simp
    define k where "k = nat (bit_len (n div 2) - 1)"
    have k: "nat (bit_len (n div 2)) = Suc k" "nat (bit_len n - 1) = Suc k" "nat (bit_len n) = Suc (Suc k)"
      using IH(1) bl by (simp_all add: k_def)
    have a: "(2::int) ^ k \<le> n div 2" using IH(2) by (simp add: k_def)
    have b: "n div 2 < (2::int) ^ Suc k" using IH(3) k by simp
    have "2 * (2::int) ^ k \<le> n" using a by presburger
    moreover have "n < 2 * (2::int) ^ Suc k" using b by presburger
    moreover have "0 < bit_len n" using bl IH(1) by simp
    ultimately show ?thesis unfolding k by simp
  qed
qed

lemma pow2_powi: "pow2 e = 2 powi e"
  by (simp add: pow2_def power_int_def field_simps)

lemma pow2_pos: "0 < pow2 e"
  by (simp add: pow2_powi)

lemma pow2_add: "pow2 (a + b) = pow2 a * pow2 b"
  by (simp add: pow2_powi power_int_add)

lemma pow2_mono: "a \<le> b \<Longrightarrow> pow2 a \<le> pow2 b"
  by (simp add: pow2_powi power_int_increasing)

lemma pow2_nat: "0 \<le> e \<Longrightarrow> pow2 e = of_int (2 ^ nat e)"
  by (simp add: pow2_def)

lemma pow2_neg: "pow2 (- e) = 1 / pow2 e"
  by (simp add: pow2_powi power_int_minus field_simps)

lemma ilog2_bounds:
  assumes "0 < x"
  shows "pow2 (ilog2 x) \<le> x \<and> x < pow2 (ilog2 x + 1)"
proof (cases "1 \<le> x")
  case True
  define n where "n = \<lfloor>x\<rfloor>"
  have n: "0 < n" using True by (simp add: n_def)
  note b = bit_len_bounds [OF n]
  have e: "ilog2 x = bit_len n - 1" using True by (simp add: ilog2_def n_def)
  have "pow2 (bit_len n - 1) = of_int (2 ^ nat (bit_len n - 1))"
    using b by (intro pow2_nat) simp
  also have "\<dots> \<le> of_int n" using b by (simp only: of_int_le_iff)
  also have "\<dots> \<le> x" by (simp add: n_def)
  finally have lo: "pow2 (ilog2 x) \<le> x" by (simp add: e)
  have "n + 1 \<le> 2 ^ nat (bit_len n)" using b by simp
  then have "(of_int (n + 1) :: rat) \<le> of_int (2 ^ nat (bit_len n))" by (simp only: of_int_le_iff)
  moreover have "x < of_int (n + 1)" using floor_correct [of x] by (simp add: n_def)
  moreover have "pow2 (bit_len n) = of_int (2 ^ nat (bit_len n))"
    using b by (intro pow2_nat) simp
  ultimately have "x < pow2 (ilog2 x + 1)" by (simp add: e)
  with lo show ?thesis by simp
next
  case False
  define y where "y = 1 / x"
  have y: "1 < y" using False assms by (simp add: y_def)
  define m where "m = \<lceil>y\<rceil> - 1"
  have m: "0 < m" using y ceiling_correct [of y] by (simp add: m_def)
  note b = bit_len_bounds [OF m]
  have e: "ilog2 x = - bit_len m" using False by (simp add: ilog2_def m_def y_def)
  have my: "of_int m < y" "y \<le> of_int (m + 1)"
    using ceiling_correct [of y] by (simp_all add: m_def)
  have p1: "pow2 (bit_len m) = of_int (2 ^ nat (bit_len m))"
    using b by (intro pow2_nat) simp
  have p2: "pow2 (bit_len m - 1) = of_int (2 ^ nat (bit_len m - 1))"
    using b by (intro pow2_nat) simp
  have "m + 1 \<le> 2 ^ nat (bit_len m)" using b by simp
  then have "(of_int (m + 1) :: rat) \<le> of_int (2 ^ nat (bit_len m))" by (simp only: of_int_le_iff)
  with my(2) have "y \<le> of_int (2 ^ nat (bit_len m))" by (rule order_trans)
  then have yu: "y \<le> pow2 (bit_len m)" by (simp only: p1)
  have "(of_int (2 ^ nat (bit_len m - 1)) :: rat) \<le> of_int m" using b by (simp only: of_int_le_iff)
  then have "(of_int (2 ^ nat (bit_len m - 1)) :: rat) < y" using my(1) by (rule le_less_trans)
  then have yl: "pow2 (bit_len m - 1) < y" by (simp only: p2)
  have x: "x = 1 / y" by (simp add: y_def)
  have "pow2 (- bit_len m) \<le> x"
    unfolding pow2_neg x using yu y pow2_pos [of "bit_len m"] by (simp add: frac_le)
  moreover have "x < pow2 (- (bit_len m - 1))"
    unfolding pow2_neg x using yl y pow2_pos [of "bit_len m - 1"] by (simp add: frac_less2)
  ultimately show ?thesis by (simp add: e)
qed

lemma rhe_of_int: "rhe (of_int n) = n"
  by (simp add: rhe_def)

lemma rhe_bounds: "\<lfloor>x\<rfloor> \<le> rhe x \<and> rhe x \<le> \<lfloor>x\<rfloor> + 1"
  by (simp add: rhe_def Let_def)

lemma rhe_mono: "x \<le> y \<Longrightarrow> rhe x \<le> rhe y"
proof -
  assume xy: "x \<le> y"
  then have f: "\<lfloor>x\<rfloor> \<le> \<lfloor>y\<rfloor>" by (rule floor_mono)
  show ?thesis
  proof (cases "\<lfloor>x\<rfloor> = \<lfloor>y\<rfloor>")
    case True
    then show ?thesis using xy by (auto simp: rhe_def Let_def)
  next
    case False
    with f have "\<lfloor>x\<rfloor> + 1 \<le> \<lfloor>y\<rfloor>" by simp
    with rhe_bounds [of x] rhe_bounds [of y] show ?thesis by linarith
  qed
qed

lemma rhe_ge: "of_int n \<le> x \<Longrightarrow> n \<le> rhe x"
  using rhe_mono [of "of_int n" x] by (simp add: rhe_of_int)

lemma rhe_le: "x \<le> of_int n \<Longrightarrow> rhe x \<le> n"
  using rhe_mono [of x "of_int n"] by (simp add: rhe_of_int)


lemma rnd_pos_bounds:
  assumes "0 < x"
  shows "pow2 (ilog2 x) \<le> rnd_pos x \<and> rnd_pos x \<le> pow2 (ilog2 x + 1)"
proof -
  define e where "e = ilog2 x"
  define u where "u = pow2 (e - 52)"
  have u: "0 < u" by (simp add: u_def pow2_pos)
  have b: "pow2 e \<le> x" "x < pow2 (e + 1)" using ilog2_bounds [OF assms] by (simp_all add: e_def)
  have c52: "pow2 52 = of_int (2 ^ 52)" and c53: "pow2 53 = of_int (2 ^ 53)"
    by (simp_all add: pow2_def)
  have "e = 52 + (e - 52)" by simp
  then have "pow2 e = pow2 (52 + (e - 52))" by (rule arg_cong)
  also have "\<dots> = pow2 52 * pow2 (e - 52)" by (rule pow2_add)
  finally have p52: "pow2 e = of_int (2 ^ 52) * u" by (simp only: c52 u_def)
  have "e + 1 = 53 + (e - 52)" by simp
  then have "pow2 (e + 1) = pow2 (53 + (e - 52))" by (rule arg_cong)
  also have "\<dots> = pow2 53 * pow2 (e - 52)" by (rule pow2_add)
  finally have p53: "pow2 (e + 1) = of_int (2 ^ 53) * u" by (simp only: c53 u_def)
  have "of_int (2 ^ 52) \<le> x / u" using b(1) u by (simp add: p52 pos_le_divide_eq)
  then have lo: "2 ^ 52 \<le> rhe (x / u)" by (rule rhe_ge)
  have "x / u \<le> of_int (2 ^ 53)" using b(2) u by (simp add: p53 pos_divide_le_eq)
  then have hi: "rhe (x / u) \<le> 2 ^ 53" by (rule rhe_le)
  have r: "rnd_pos x = of_int (rhe (x / u)) * u" by (simp add: rnd_pos_def u_def e_def Let_def)
  have "(of_int (2 ^ 52) :: rat) \<le> of_int (rhe (x / u))" using lo by (simp only: of_int_le_iff)
  then have "of_int (2 ^ 52) * u \<le> of_int (rhe (x / u)) * u" using u by (simp only: mult_le_cancel_right_pos)
  moreover have "(of_int (rhe (x / u)) :: rat) \<le> of_int (2 ^ 53)" using hi by (simp only: of_int_le_iff)
  then have "of_int (rhe (x / u)) * u \<le> of_int (2 ^ 53) * u" using u by (simp only: mult_le_cancel_right_pos)
  ultimately show ?thesis unfolding r p52 [symmetric] p53 [symmetric] e_def by simp
qed

lemma ilog2_mono:
  assumes "0 < x" "x \<le> y"
  shows "ilog2 x \<le> ilog2 y"
proof (rule ccontr)
  assume "\<not> ilog2 x \<le> ilog2 y"
  then have "ilog2 y + 1 \<le> ilog2 x" by simp
  then have "pow2 (ilog2 y + 1) \<le> pow2 (ilog2 x)" by (rule pow2_mono)
  moreover have "y < pow2 (ilog2 y + 1)" using ilog2_bounds [of y] assms by simp
  moreover have "pow2 (ilog2 x) \<le> x" using ilog2_bounds [of x] assms by simp
  ultimately show False using assms by linarith
qed

lemma rnd_pos_mono:
  assumes "0 < x" "x \<le> y"
  shows "rnd_pos x \<le> rnd_pos y"
proof (cases "ilog2 x = ilog2 y")
  case True
  define u where "u = pow2 (ilog2 y - 52)"
  have u: "0 < u" by (simp add: u_def pow2_pos)
  have "x / u \<le> y / u" using assms u by (simp add: divide_right_mono)
  then have "rhe (x / u) \<le> rhe (y / u)" by (rule rhe_mono)
  then have "(of_int (rhe (x / u)) :: rat) \<le> of_int (rhe (y / u))" by (simp only: of_int_le_iff)
  then have "of_int (rhe (x / u)) * u \<le> of_int (rhe (y / u)) * u"
    using u by (simp only: mult_le_cancel_right_pos)
  then show ?thesis by (simp add: rnd_pos_def True u_def Let_def)
next
  case False
  with ilog2_mono [OF assms] have "ilog2 x + 1 \<le> ilog2 y" by simp
  then have "pow2 (ilog2 x + 1) \<le> pow2 (ilog2 y)" by (rule pow2_mono)
  moreover have "rnd_pos x \<le> pow2 (ilog2 x + 1)" using rnd_pos_bounds [of x] assms by simp
  moreover have "pow2 (ilog2 y) \<le> rnd_pos y" using rnd_pos_bounds [of y] assms by simp
  ultimately show ?thesis by linarith
qed

lemma rnd_pos_pos: "0 < x \<Longrightarrow> 0 < rnd_pos x"
  using rnd_pos_bounds [of x] pow2_pos [of "ilog2 x"] by linarith

lemma rnd_mono:
  assumes "x \<le> y"
  shows "rnd x \<le> rnd y"
proof -
  consider "0 < x" | "x = 0" | "x < 0" "y < 0" | "x < 0" "y = 0" | "x < 0" "0 < y"
    by linarith
  then show ?thesis
  proof cases
    case 1
    with assms have "0 < y" by simp
    with 1 rnd_pos_mono [OF 1 assms] show ?thesis by (simp add: rnd_def)
  next
    case 2
    show ?thesis
    proof (cases "y = 0")
      case True
      with 2 show ?thesis by simp
    next
      case False
      with 2 assms have "0 < y" by simp
      with 2 rnd_pos_pos [of y] show ?thesis by (simp add: rnd_def)
    qed
  next
    case 3
    then have "0 < - y" "- y \<le> - x" using assms by simp_all
    then have "rnd_pos (- y) \<le> rnd_pos (- x)" by (rule rnd_pos_mono)
    with 3 show ?thesis by (simp add: rnd_def)
  next
    case 4
    with rnd_pos_pos [of "- x"] show ?thesis by (simp add: rnd_def)
  next
    case 5
    with rnd_pos_pos [of "- x"] rnd_pos_pos [of y] show ?thesis by (simp add: rnd_def)
  qed
qed

lemma rnd_zero: "rnd 0 = 0"
  by (simp add: rnd_def)

lemma rnd_nonneg: "0 \<le> x \<Longrightarrow> 0 \<le> rnd x"
  using rnd_mono [of 0 x] by (simp add: rnd_zero)

lemma fl_of_int_mono: "a \<le> b \<Longrightarrow> fl_of_int a \<le> fl_of_int b"
  unfolding fl_of_int_def by (rule rnd_mono) simp

lemma fl_of_int_nonneg: "0 \<le> a \<Longrightarrow> 0 \<le> fl_of_int a"
  unfolding fl_of_int_def by (rule rnd_nonneg) simp

lemma lit_nonneg: "0 \<le> q \<Longrightarrow> 0 \<le> lit q"
  unfolding lit_def by (rule rnd_nonneg)

lemma fl_mul_mono_left: "a \<le> b \<Longrightarrow> 0 \<le> c \<Longrightarrow> fl_mul a c \<le> fl_mul b c"
  unfolding fl_mul_def by (rule rnd_mono) (rule mult_right_mono)

lemma fl_mul_mono_right: "a \<le> b \<Longrightarrow> 0 \<le> c \<Longrightarrow> fl_mul c a \<le> fl_mul c b"
  unfolding fl_mul_def by (rule rnd_mono) (rule mult_left_mono)

lemma fl_mul_nonneg: "0 \<le> a \<Longrightarrow> 0 \<le> b \<Longrightarrow> 0 \<le> fl_mul a b"
  unfolding fl_mul_def by (rule rnd_nonneg) simp

lemma fl_add_mono_left: "a \<le> b \<Longrightarrow> fl_add a c \<le> fl_add b c"
  unfolding fl_add_def by (rule rnd_mono) simp

lemma fl_add_nonneg: "0 \<le> a \<Longrightarrow> 0 \<le> b \<Longrightarrow> 0 \<le> fl_add a b"
  unfolding fl_add_def by (rule rnd_nonneg) simp

lemma importance_of_mono_demand:
  assumes "md1 \<le> md2" "0 < gap"
  shows "importance_of md1 diff gap \<le> importance_of md2 diff gap"
proof -
  have "fl_mul (fl_of_int md1) (lit (7 / 10)) \<le> fl_mul (fl_of_int md2) (lit (7 / 10))"
    using assms(1) by (intro fl_mul_mono_left fl_of_int_mono lit_nonneg) simp_all
  then have "fl_add (fl_mul (fl_of_int md1) (lit (7 / 10))) (fl_mul (fl_of_int (10 - diff)) (lit (3 / 10)))
      \<le> fl_add (fl_mul (fl_of_int md2) (lit (7 / 10))) (fl_mul (fl_of_int (10 - diff)) (lit (3 / 10)))"
    by (rule fl_add_mono_left)
  moreover have "0 \<le> fl_of_int gap" using assms(2) by (intro fl_of_int_nonneg) simp
  ultimately show ?thesis unfolding importance_of_def by (rule fl_mul_mono_left)
qed

lemma importance_of_mono_gap:
  assumes "g1 \<le> g2" "0 \<le> md" "diff \<le> 10"
  shows "importance_of md diff g1 \<le> importance_of md diff g2"
proof -
  have "0 \<le> fl_add (fl_mul (fl_of_int md) (lit (7 / 10))) (fl_mul (fl_of_int (10 - diff)) (lit (3 / 10)))"
    using assms(2,3) by (intro fl_add_nonneg fl_mul_nonneg fl_of_int_nonneg lit_nonneg) simp_all
  moreover have "fl_of_int g1 \<le> fl_of_int g2" using assms(1) by (rule fl_of_int_mono)
  ultimately show ?thesis unfolding importance_of_def by (intro fl_mul_mono_right)
qed


section \<open>Properties of the importance score\<close>

text \<open>
  Claim C6.  The importance score \<open>(market_demand * 0.7 + (10 - difficulty) * 0.3) *
  gap_size\<close>, as computed in floating point, does not decrease when the market demand
  grows (difficulty and a positive gap size fixed) and does not decrease when the gap
  size grows (market demand and difficulty fixed in 1..10).  The priority is High for a
  score of at least 7, Medium for a score of at least 4 and Low otherwise, and
  \<open>_create_skill_gap_info\<close> stores this score and this priority.
\<close>

theorem importance_score_monotone:
  "(md1 \<le> md2 \<and> 0 < gap \<longrightarrow> importance_of md1 diff gap \<le> importance_of md2 diff gap) \<and>
   (g1 \<le> g2 \<and> 1 \<le> md \<and> md \<le> 10 \<and> 1 \<le> diff \<and> diff \<le> 10 \<longrightarrow>
      importance_of md diff g1 \<le> importance_of md diff g2) \<and>
   priority_of score =
     (if 7 \<le> score then ''High'' else if 4 \<le> score then ''Medium'' else ''Low'') \<and>
   importance_score (create_skill_gap_info name cur req user_profile) =
     importance_of (market_demand (create_skill_gap_info name cur req user_profile))
       (difficulty (create_skill_gap_info name cur req user_profile))
       (gap_size (create_skill_gap_info name cur req user_profile)) \<and>
   importance (create_skill_gap_info name cur req user_profile) =
     priority_of (importance_score (create_skill_gap_info name cur req user_profile))"
proof (intro conjI impI)
  assume "md1 \<le> md2 \<and> 0 < gap"
  then show "importance_of md1 diff gap \<le> importance_of md2 diff gap"
    by (simp add: importance_of_mono_demand)
next
  assume "g1 \<le> g2 \<and> 1 \<le> md \<and> md \<le> 10 \<and> 1 \<le> diff \<and> diff \<le> 10"
  then show "importance_of md diff g1 \<le> importance_of md diff g2"
    by (intro importance_of_mono_gap) simp_all
next
  show "priority_of score =
     (if 7 \<le> score then ''High'' else if 4 \<le> score then ''Medium'' else ''Low'')"
    by (simp add: priority_of_def)
next
  show "importance_score (create_skill_gap_info name cur req user_profile) =
     importance_of (market_demand (create_skill_gap_info name cur req user_profile))
       (difficulty (create_skill_gap_info name cur req user_profile))
       (gap_size (create_skill_gap_info name cur req user_profile))"
    by (simp add: create_skill_gap_info_def Let_def)
next
  show "importance (create_skill_gap_info name cur req user_profile) =
     priority_of (importance_score (create_skill_gap_info name cur req user_profile))"
    by (simp add: create_skill_gap_info_def Let_def)
qed

theorem importance_score_monotone_witness:
  "importance_of 5 6 2 \<le> importance_of 9 6 2 \<and>
   importance_of 9 6 1 \<le> importance_of 9 6 2 \<and>
   importance_of 9 6 2 = 15 \<and>
   priority_of 15 = ''High''"
proof -
  have v: "importance_of 9 6 2 = 15" by code_simp
  show ?thesis
    using importance_score_monotone [of 5 9 2 6 1 2 9 15] v
    by simp
qed

section \<open>Properties of the level estimate\<close>

lemma base_level_values:
  "trunc (fl_add (fl_of_int 3) (lit (1 / 2))) = 3"
  "trunc (fl_add (fl_of_int 5) (lit (1 / 2))) = 5"
  "trunc (fl_add (fl_of_int 7) (lit (1 / 2))) = 7"
  "trunc (fl_add (fl_of_int 8) (lit (1 / 2))) = 8"
  by code_simp+

lemma floor_half: "\<lfloor>(1::rat) / 2\<rfloor> = 0"
  by (rule floor_unique) simp_all

lemma spec_level_values:
  "b \<in> {3, 5, 7, 8} \<Longrightarrow>
   spec_level b edu =
     (if sublist ''phd'' (lower edu) then b + 1 else b)"
  by (auto simp: spec_level_def trunc_def floor_half)

lemma base_level_lookup:
  "py_get [(''entry'', 3), (''mid'', 5), (''senior'', 7), (''executive'', 8)] t (3 :: int) =
     (case tier_base t of Some b \<Rightarrow> b | None \<Rightarrow> 3)"
  by (simp add: py_get_def tier_base_def)

lemma base_level_cases:
  "(case tier_base t of Some b \<Rightarrow> b | None \<Rightarrow> 3) \<in> {3, 5, 7, 8}"
  by (simp add: tier_base_def)

lemma estimate_user_level_base:
  "estimate_user_level s user_profile =
     (if sublist ''phd'' (lower (get_or (education user_profile) ''''))
      then (case tier_base (get_or (experience_level user_profile) ''entry'') of
              Some b \<Rightarrow> b | None \<Rightarrow> 3) + 1
      else (case tier_base (get_or (experience_level user_profile) ''entry'') of
              Some b \<Rightarrow> b | None \<Rightarrow> 3))"
proof -
  define b where "b = (case tier_base (get_or (experience_level user_profile) ''entry'') of
              Some b \<Rightarrow> b | None \<Rightarrow> 3)"
  have "b = 3 \<or> b = 5 \<or> b = 7 \<or> b = 8"
    using base_level_cases [of "get_or (experience_level user_profile) ''entry''"]
    unfolding b_def [symmetric] by simp
  then show ?thesis
    unfolding estimate_user_level_def Let_def py_in_str_sublist base_level_lookup b_def [symmetric]
    by (elim disjE) (simp_all add: base_level_values)
qed

text \<open>
  Claim C3.  For every profile, the estimated level is the base level of the
  experience tier (entry 3, mid 5, senior 7, executive 8; the code's default 3 for an
  absent key or for any other string) plus 1 if the lower-cased education contains
  \<open>phd\<close>, plus 0.5 if it contains \<open>master\<close>, truncated to an integer and capped at 10;
  so the estimate is at most 10 for every profile.
\<close>

theorem estimate_user_level_formula:
  "estimate_user_level s user_profile =
     spec_level (case tier_base (get_or (experience_level user_profile) ''entry'') of
                   Some b \<Rightarrow> b | None \<Rightarrow> 3)
       (get_or (education user_profile) '''') \<and>
   (\<forall>b. tier_base (get_or (experience_level user_profile) ''entry'') = Some b \<longrightarrow>
      estimate_user_level s user_profile = spec_level b (get_or (education user_profile) '''')) \<and>
   (\<forall>t. tier_base t =
      (if t = ''entry'' then Some 3 else if t = ''mid'' then Some 5
       else if t = ''senior'' then Some 7 else if t = ''executive'' then Some 8 else None)) \<and>
   estimate_user_level s user_profile \<le> 10"
proof (intro conjI allI impI)
  show e: "estimate_user_level s user_profile =
     spec_level (case tier_base (get_or (experience_level user_profile) ''entry'') of
                   Some b \<Rightarrow> b | None \<Rightarrow> 3)
       (get_or (education user_profile) '''')"
    by (simp only: estimate_user_level_base spec_level_values [OF base_level_cases])
  fix b
  assume "tier_base (get_or (experience_level user_profile) ''entry'') = Some b"
  with e show "estimate_user_level s user_profile = spec_level b (get_or (education user_profile) '''')"
    by simp
next
  show "estimate_user_level s user_profile \<le> 10"
    by (simp add: estimate_user_level_def Let_def)
next
  fix t
  show "tier_base t =
      (if t = ''entry'' then Some 3 else if t = ''mid'' then Some 5
       else if t = ''senior'' then Some 7 else if t = ''executive'' then Some 8 else None)"
    by (simp add: tier_base_def)
qed

theorem estimate_user_level_formula_witness:
  "estimate_user_level ''Python''
     \<lparr>skills = Some [''Python''], experience_level = Some ''executive'',
      education = Some ''PhD and Master of Science'', preferred_industries = Some [],
      interests = Some []\<rparr> = 9 \<and>
   estimate_user_level ''SQL''
     \<lparr>skills = Some [''SQL''], experience_level = Some ''mid'',
      education = Some ''Master'', preferred_industries = Some [],
      interests = Some []\<rparr> = 5 \<and>
   estimate_user_level ''SQL''
     \<lparr>skills = Some [''SQL''], experience_level = Some ''Senior'',
      education = Some ''phd'', preferred_industries = Some [],
      interests = Some []\<rparr> = 4 \<and>
   estimate_user_level ''SQL''
     \<lparr>skills = Some [''SQL''], experience_level = None,
      education = None, preferred_industries = None, interests = None\<rparr> = 3"
proof -
  have a: "tier_base ''executive'' = Some 8" "tier_base ''mid'' = Some 5"
    "tier_base ''Senior'' = None" "tier_base ''entry'' = Some 3"
    by (simp_all add: tier_base_def)
  have b: "spec_level 8 ''PhD and Master of Science'' = 9" "spec_level 5 ''Master'' = 5"
    "spec_level 3 ''phd'' = 4" "spec_level 3 '''' = 3"
    by code_simp+
  show ?thesis
    using estimate_user_level_formula
            [of "''Python''" "\<lparr>skills = Some [''Python''], experience_level = Some ''executive'',
                  education = Some ''PhD and Master of Science'', preferred_industries = Some [],
                  interests = Some []\<rparr>"]
          estimate_user_level_formula
            [of "''SQL''" "\<lparr>skills = Some [''SQL''], experience_level = Some ''mid'',
                  education = Some ''Master'', preferred_industries = Some [],
                  interests = Some []\<rparr>"]
          estimate_user_level_formula
            [of "''SQL''" "\<lparr>skills = Some [''SQL''], experience_level = Some ''Senior'',
                  education = Some ''phd'', preferred_industries = Some [],
                  interests = Some []\<rparr>"]
          estimate_user_level_formula
            [of "''SQL''" "\<lparr>skills = Some [''SQL''], experience_level = None,
                  education = None, preferred_industries = None, interests = None\<rparr>"]
          a b
    by (simp add: get_or_def)
qed

text \<open>
  Claim C9.  The estimated level does not depend on the skill name, so every entry of
  the dictionary \<open>user_skills\<close> built by \<open>analyze_skill_gaps\<close> holds the same level.
\<close>

theorem estimate_user_level_skill_independent:
  "estimate_user_level s1 user_profile = estimate_user_level s2 user_profile \<and>
   (\<forall>k v. user_skills_of user_profile k = Some v \<longrightarrow> v = estimate_user_level s1 user_profile)"
proof
  show "estimate_user_level s1 user_profile = estimate_user_level s2 user_profile"
    by (simp add: estimate_user_level_def)
  show "\<forall>k v. user_skills_of user_profile k = Some v \<longrightarrow> v = estimate_user_level s1 user_profile"
  proof (intro allI impI)
    fix k v
    assume "user_skills_of user_profile k = Some v"
    then have "(k, v) \<in> set (rev (map (\<lambda>s. (lower s, estimate_user_level s user_profile))
                      (get_or (skills user_profile) [])))"
      unfolding user_skills_of_def by (rule map_of_SomeD)
    then show "v = estimate_user_level s1 user_profile"
      by (auto simp: estimate_user_level_def)
  qed
qed

theorem estimate_user_level_skill_independent_witness:
  "user_skills_of \<lparr>skills = Some [''Python'', ''SQL''], experience_level = Some ''senior'',
      education = Some ''master'', preferred_industries = Some [], interests = Some []\<rparr> ''sql'' = Some 7 \<and>
   estimate_user_level ''Python'' \<lparr>skills = Some [''Python'', ''SQL''], experience_level = Some ''senior'',
      education = Some ''master'', preferred_industries = Some [], interests = Some []\<rparr> = 7 \<and>
   estimate_user_level ''Python'' \<lparr>skills = Some [''Python'', ''SQL''], experience_level = Some ''senior'',
      education = Some ''master'', preferred_industries = Some [], interests = Some []\<rparr> =
   estimate_user_level ''SQL'' \<lparr>skills = Some [''Python'', ''SQL''], experience_level = Some ''senior'',
      education = Some ''master'', preferred_industries = Some [], interests = Some []\<rparr>"
proof -
  have a: "user_skills_of \<lparr>skills = Some [''Python'', ''SQL''], experience_level = Some ''senior'',
      education = Some ''master'', preferred_industries = Some [], interests = Some []\<rparr> ''sql'' = Some 7"
    by code_simp
  show ?thesis
    using estimate_user_level_skill_independent
            [of "''Python''" "\<lparr>skills = Some [''Python'', ''SQL''], experience_level = Some ''senior'',
      education = Some ''master'', preferred_industries = Some [], interests = Some []\<rparr>" "''SQL''"] a
    by auto
qed

section \<open>Properties of the match score\<close>

lemma skill_match_empty: "skill_match {} wanted = 0"
  by (simp add: skill_match_def int_truediv_def rnd_zero)

lemma no_skill_score:
  "fl_add 0 (fl_mul (fl_add (fl_mul 0 a) (fl_mul 0 b)) c) = 0"
  by (simp add: fl_mul_def fl_add_def rnd_zero)

lemma flat_bonus_values:
  "min (fl_mul 0 100) 100 = 0"
  "min (fl_mul (fl_add 0 (lit (1 / 5))) 100) 100 = 20"
  "min (fl_mul (fl_add 0 (lit (3 / 20))) 100) 100 = 15"
  "min (fl_mul (fl_add (fl_add 0 (lit (1 / 5))) (lit (3 / 20))) 100) 100 = 35"
  by code_simp+

text \<open>
  Claim C2.  For a profile whose skills, interests and preferred industries are all
  empty (or absent) and a job of the catalog, \<open>calculate_match_score\<close> raises nothing
  and returns exactly 20 if the lower-cased experience level of the profile is among
  the job's experience levels (else 0) plus 15 if the lower-cased education is among
  the job's education requirements (else 0): the skill, industry and interest terms
  contribute nothing, whatever the similarity function is.
\<close>

theorem calculate_match_score_flat_bonuses:
  assumes "get_or (skills user_profile) [] = []"
    and "get_or (interests user_profile) [] = []"
    and "get_or (preferred_industries user_profile) [] = []"
    and "job \<in> set job_database"
  shows "calculate_match_score similarity user_profile job =
           Inr ((if lower (get_or (experience_level user_profile) '''') \<in> set (experience_levels job)
                 then 20 else 0) +
                (if lower (get_or (education user_profile) '''') \<in> set (education_requirements job)
                 then 15 else 0))"
  unfolding calculate_match_score_def Let_def assms(1-3)
  by (simp add: skill_match_empty no_skill_score flat_bonus_values)

theorem calculate_match_score_flat_bonuses_witness:
  "calculate_match_score (\<lambda>text i. 1)
     \<lparr>skills = Some [], experience_level = Some ''Mid'', education = Some ''bachelor'',
      preferred_industries = Some [], interests = None\<rparr>
     (job_database ! 0) = Inr 35 \<and>
   calculate_match_score (\<lambda>text i. 1)
     \<lparr>skills = Some [], experience_level = Some ''entry'', education = Some ''phd'',
      preferred_industries = Some [], interests = Some []\<rparr>
     (job_database ! 1) = Inr 20"
proof -
  have a: "job_database ! 0 \<in> set job_database" "job_database ! 1 \<in> set job_database"
    by (simp_all add: job_database_def)
  have b: "lower ''Mid'' \<in> set (experience_levels (job_database ! 0))"
      "lower ''bachelor'' \<in> set (education_requirements (job_database ! 0))"
      "lower ''entry'' \<in> set (experience_levels (job_database ! 1))"
      "lower ''phd'' \<notin> set (education_requirements (job_database ! 1))"
    by code_simp+
  show ?thesis
    using calculate_match_score_flat_bonuses
            [of "\<lparr>skills = Some [], experience_level = Some ''Mid'', education = Some ''bachelor'',
                  preferred_industries = Some [], interests = None\<rparr>" "job_database ! 0" "\<lambda>text i. 1"]
          calculate_match_score_flat_bonuses
            [of "\<lparr>skills = Some [], experience_level = Some ''entry'', education = Some ''phd'',
                  preferred_industries = Some [], interests = Some []\<rparr>" "job_database ! 1" "\<lambda>text i. 1"]
          a b
    by (simp add: get_or_def)
qed

section \<open>Properties of the recommendations\<close>

lemma first_index_Some: "x \<in> set xs \<Longrightarrow> P x \<Longrightarrow> \<exists>i. first_index P xs = Some i"
  by (induction xs) (auto split: option.splits)

lemma calculate_match_score_Inr:
  assumes "job \<in> set job_database"
  shows "\<exists>s. calculate_match_score similarity user_profile job = Inr s"
proof -
  obtain i where "first_index (\<lambda>j. job_title j = job_title job) job_database = Some i"
    using first_index_Some [OF assms, of "\<lambda>j. job_title j = job_title job"] by auto
  then show ?thesis
    unfolding calculate_match_score_def Let_def by simp
qed

lemma from_job_recommendation: "from_job (recommendation job s) job"
  by (simp add: from_job_def recommendation_def)

lemma recommend_jobs_Inr:
  "set jobs \<subseteq> set job_database \<Longrightarrow>
   \<exists>recs. recommend_jobs similarity user_profile jobs = Inr recs \<and> list_all2 from_job recs jobs"
proof (induction jobs)
  case Nil
  show ?case by simp
next
  case (Cons job jobs)
  then obtain recs where r: "recommend_jobs similarity user_profile jobs = Inr recs"
     "list_all2 from_job recs jobs" by auto
  from Cons.prems obtain s where s: "calculate_match_score similarity user_profile job = Inr s"
    using calculate_match_score_Inr [of job similarity user_profile] by auto
  show ?case by (simp add: r s from_job_recommendation)
qed

lemma py_slice_to_take: "0 \<le> n \<Longrightarrow> py_slice_to n xs = take (nat n) xs"
  by (simp add: py_slice_to_def)

lemma set_py_slice_to: "set (py_slice_to n xs) \<subseteq> set xs"
  by (simp add: py_slice_to_def set_take_subset)

lemma set_py_sort_desc: "set (py_sort_desc f xs) = set xs"
  by (simp add: py_sort_desc_def)

lemma sorted_py_sort_desc: "sorted_wrt (\<lambda>a b. f b \<le> f a) (py_sort_desc f xs)"
proof -
  have "sorted (map f (sort_key f (rev xs)))" by (rule sorted_sort_key)
  then have "sorted_wrt (\<lambda>a b. f a \<le> f b) (sort_key f (rev xs))"
    by (simp add: sorted_map)
  then show ?thesis
    by (simp add: py_sort_desc_def sorted_wrt_rev)
qed

lemma stable_py_sort_desc:
  "filter (\<lambda>x. f x = v) (py_sort_desc f xs) = filter (\<lambda>x. f x = v) xs"
proof -
  have "filter (\<lambda>x. f x = v) (py_sort_desc f xs) = rev (filter (\<lambda>x. f x = v) (sort_key f (rev xs)))"
    by (simp add: py_sort_desc_def rev_filter)
  also have "\<dots> = rev (filter (\<lambda>x. f x = v) (rev xs))"
    by (simp only: sort_key_stable)
  also have "\<dots> = filter (\<lambda>x. f x = v) xs"
    by (simp add: rev_filter)
  finally show ?thesis .
qed

lemma prefix_filter_take: "prefix (filter P (take n xs)) (filter P xs)"
proof -
  have "filter P xs = filter P (take n xs) @ filter P (drop n xs)"
    by (simp only: filter_append [symmetric] append_take_drop_id)
  then show ?thesis by (simp add: prefix_def)
qed

text \<open>
  Claim C1.  For \<open>top_n \<ge> 0\<close>, \<open>get_recommendations\<close> raises nothing and returns at
  most \<open>top_n\<close> entries; each returned entry is the entry computed for a job of the
  catalog of six jobs; the entries are in descending order of match percentage; and
  for every percentage, the returned entries having it are, in order, an initial
  segment of the entries having it in catalog order (ties keep catalog order).
\<close>

theorem get_recommendations_top_n_sorted:
  assumes "0 \<le> top_n"
  shows "\<exists>recs catalog.
           get_recommendations similarity user_profile top_n = Inr recs \<and>
           recommend_jobs similarity user_profile job_database = Inr catalog \<and>
           list_all2 from_job catalog job_database \<and>
           length job_database = 6 \<and>
           length recs \<le> nat top_n \<and>
           set recs \<subseteq> set catalog \<and>
           (\<forall>r \<in> set recs. \<exists>job \<in> set job_database. from_job r job) \<and>
           sorted_wrt (\<lambda>a b. match_percentage b \<le> match_percentage a) recs \<and>
           (\<forall>v. prefix (filter (\<lambda>r. match_percentage r = v) recs)
                       (filter (\<lambda>r. match_percentage r = v) catalog))"
proof -
  obtain catalog where c: "recommend_jobs similarity user_profile job_database = Inr catalog"
    "list_all2 from_job catalog job_database"
    using recommend_jobs_Inr [of job_database] by auto
  define sorted_recs where "sorted_recs = py_sort_desc match_percentage catalog"
  define recs where "recs = take (nat top_n) sorted_recs"
  have g: "get_recommendations similarity user_profile top_n = Inr recs"
    using assms by (simp add: get_recommendations_def c recs_def sorted_recs_def py_slice_to_take)
  have len: "length recs \<le> nat top_n" by (simp add: recs_def)
  have sub: "set recs \<subseteq> set catalog"
    using set_take_subset [of "nat top_n" sorted_recs] by (simp add: recs_def sorted_recs_def set_py_sort_desc)
  have corr: "\<forall>r \<in> set recs. \<exists>job \<in> set job_database. from_job r job"
  proof
    fix r assume "r \<in> set recs"
    with sub have "r \<in> set catalog" by auto
    then obtain i where i: "i < length catalog" "r = catalog ! i"
      by (auto simp: in_set_conv_nth)
    from c(2) have l: "length catalog = length job_database" by (rule list_all2_lengthD)
    from c(2) i(1) have "from_job (catalog ! i) (job_database ! i)" by (rule list_all2_nthD)
    moreover have "job_database ! i \<in> set job_database" using i(1) l by simp
    ultimately show "\<exists>job \<in> set job_database. from_job r job" using i(2) by blast
  qed
  have srt: "sorted_wrt (\<lambda>a b. match_percentage b \<le> match_percentage a) recs"
    unfolding recs_def sorted_recs_def by (intro sorted_wrt_take sorted_py_sort_desc)
  have stab: "prefix (filter (\<lambda>r. match_percentage r = v) recs)
                     (filter (\<lambda>r. match_percentage r = v) catalog)" for v
    using prefix_filter_take [of "\<lambda>r. match_percentage r = v" "nat top_n" sorted_recs]
    by (simp add: recs_def sorted_recs_def stable_py_sort_desc)
  have six: "length job_database = 6" by (simp add: job_database_def)
  show ?thesis using g c len sub corr srt stab six by blast
qed

theorem get_recommendations_top_n_sorted_witness:
  "\<exists>recs. get_recommendations (\<lambda>text i. 0)
       \<lparr>skills = Some [''Python'', ''SQL''], experience_level = Some ''mid'',
        education = Some ''bachelor'', preferred_industries = Some [''Technology''],
        interests = Some []\<rparr> 3 = Inr recs \<and>
     map rec_job_title recs = [''Data Scientist'', ''Software Engineer'', ''Product Manager''] \<and>
     length recs \<le> 3 \<and>
     sorted_wrt (\<lambda>a b. match_percentage b \<le> match_percentage a) recs"
proof -
  have e: "map_sum id (map rec_job_title)
             (get_recommendations (\<lambda>text i. 0)
                \<lparr>skills = Some [''Python'', ''SQL''], experience_level = Some ''mid'',
                 education = Some ''bachelor'', preferred_industries = Some [''Technology''],
                 interests = Some []\<rparr> 3) =
           Inr [''Data Scientist'', ''Software Engineer'', ''Product Manager'']"
    by code_simp
  have h: "(0::int) \<le> 3" by simp
  show ?thesis
    using get_recommendations_top_n_sorted
            [OF h, of "\<lambda>text i. 0"
               "\<lparr>skills = Some [''Python'', ''SQL''], experience_level = Some ''mid'',
                 education = Some ''bachelor'', preferred_industries = Some [''Technology''],
                 interests = Some []\<rparr>"] e
    by auto
qed

section \<open>Properties of the skill gap analysis\<close>

lemma find_append_eq:
  "find P (xs @ ys) = (case find P xs of None \<Rightarrow> find P ys | Some x \<Rightarrow> Some x)"
  by (induction xs) auto

lemma current_level_of_lower:
  "lower k = lower k' \<Longrightarrow> current_level_of us k = current_level_of us k'"
  by (simp add: current_level_of_def)

lemma create_skill_gap_info_fields:
  "skill (create_skill_gap_info n c r p) = n"
  "current_level (create_skill_gap_info n c r p) = c"
  "required_level (create_skill_gap_info n c r p) = r"
  "gap_size (create_skill_gap_info n c r p) = r - c"
  by (simp_all add: create_skill_gap_info_def Let_def)

lemma gap_ok_extend: "gap_ok us visited g \<Longrightarrow> gap_ok us (visited @ ys) g"
  by (simp add: gap_ok_def find_append_eq)

lemma scan_inv_step:
  assumes "scan_inv us visited st"
  shows "scan_inv us (visited @ [(k, v)]) (scan_required_skills p us [(k, v)] st)"
proof -
  obtain gaps analyzed where st: "st = (gaps, analyzed)" by (cases st)
  from assms have inv:
    "analyzed = (\<lambda>g. lower (skill g)) ` set gaps \<and>
     distinct (map (\<lambda>g. lower (skill g)) gaps) \<and>
     (\<forall>g \<in> set gaps. gap_ok us visited g) \<and>
     (\<forall>(k', v') \<in> set visited. current_level_of us k' < v' \<longrightarrow> lower k' \<in> analyzed)"
    unfolding scan_inv_def st fst_conv snd_conv .
  then have a: "analyzed = (\<lambda>g. lower (skill g)) ` set gaps"
    and d: "distinct (map (\<lambda>g. lower (skill g)) gaps)"
    and ok: "\<forall>g \<in> set gaps. gap_ok us visited g"
    and cov: "\<forall>(k', v') \<in> set visited. current_level_of us k' < v' \<longrightarrow> lower k' \<in> analyzed"
    by blast+
  from ok have ok': "\<forall>g \<in> set gaps. gap_ok us (visited @ [(k, v)]) g"
    by (simp add: gap_ok_extend)
  show ?thesis
  proof (cases "lower k \<in> analyzed")
    case True
    then show ?thesis
      using a d ok' cov by (simp add: st scan_inv_def)
  next
    case False
    show ?thesis
    proof (cases "current_level_of us k < v")
      case unmet: True
      let ?g = "create_skill_gap_info k (current_level_of us k) v p"
      have none: "find (\<lambda>(k', v'). lower k' = lower k \<and> current_level_of us k' < v') visited = None"
        using cov False by (auto simp: find_None_iff)
      have "gap_ok us (visited @ [(k, v)]) ?g"
        using unmet none by (simp add: gap_ok_def create_skill_gap_info_fields find_append_eq)
      moreover have "lower (skill ?g) \<notin> (\<lambda>g. lower (skill g)) ` set gaps"
        using False a by (simp add: create_skill_gap_info_fields)
      ultimately show ?thesis
        using False unmet a d ok' cov
        by (auto simp: st scan_inv_def create_skill_gap_info_fields)
    next
      case met: False
      then show ?thesis
        using False a d ok' cov by (simp add: st scan_inv_def)
    qed
  qed
qed

lemma scan_required_skills_append:
  "scan_required_skills p us (xs @ ys) st =
     scan_required_skills p us ys (scan_required_skills p us xs st)"
proof (induction xs arbitrary: st)
  case Nil
  show ?case by simp
next
  case (Cons x xs)
  obtain k v where x: "x = (k, v)" by (cases x)
  obtain gaps analyzed where st: "st = (gaps, analyzed)" by (cases st)
  show ?case by (simp add: x st Cons.IH)
qed

lemma scan_inv_scan:
  "scan_inv us visited st \<Longrightarrow>
   scan_inv us (visited @ reqs) (scan_required_skills p us reqs st)"
proof (induction reqs arbitrary: visited st)
  case Nil
  then show ?case by simp
next
  case (Cons x reqs)
  obtain k v where x: "x = (k, v)" by (cases x)
  have "scan_inv us (visited @ [(k, v)]) (scan_required_skills p us [(k, v)] st)"
    using Cons.prems by (rule scan_inv_step)
  then have "scan_inv us ((visited @ [(k, v)]) @ reqs)
               (scan_required_skills p us reqs (scan_required_skills p us [(k, v)] st))"
    by (rule Cons.IH)
  then show ?case
    using scan_required_skills_append [of p us "[(k, v)]" reqs st] by (simp add: x)
qed

lemma scan_roles_flat:
  "scan_roles p us roles st = scan_required_skills p us (all_requirements roles) st"
  by (induction roles arbitrary: st) (simp_all add: all_requirements_def scan_required_skills_append)

lemma scan_inv_roles: "scan_inv us (all_requirements roles) (scan_roles p us roles ([], {}))"
proof -
  have "scan_inv us [] ([], {})" by (simp add: scan_inv_def)
  then have "scan_inv us ([] @ all_requirements roles)
               (scan_required_skills p us (all_requirements roles) ([], {}))"
    by (rule scan_inv_scan)
  then show ?thesis by (simp add: scan_roles_flat)
qed


lemma scan_roles_gap_ok:
  assumes "g \<in> set (fst (scan_roles p us roles ([], {})))"
  shows "gap_ok us (all_requirements roles) g"
  using scan_inv_roles [of us roles p] assms by (simp add: scan_inv_def)

lemma scan_roles_distinct:
  "distinct (map (\<lambda>g. lower (skill g)) (fst (scan_roles p us roles ([], {}))))"
  using scan_inv_roles [of us roles p] by (simp add: scan_inv_def)

lemma set_analyze_skill_gaps:
  "set (analyze_skill_gaps set_list user_profile target_roles) \<subseteq>
     set (fst (scan_roles user_profile (user_skills_of user_profile)
                 (effective_roles set_list user_profile target_roles) ([], {})))"
  unfolding analyze_skill_gaps_def Let_def
  using set_py_slice_to set_py_sort_desc by fastforce

lemma length_analyze_skill_gaps:
  "length (analyze_skill_gaps set_list user_profile target_roles) \<le> 10"
  by (simp add: analyze_skill_gaps_def Let_def py_slice_to_def)

lemma distinct_map_py_sort_desc:
  "distinct (map f xs) \<Longrightarrow> distinct (map f (py_slice_to n (py_sort_desc k xs)))"
proof -
  assume "distinct (map f xs)"
  then have d: "distinct xs" and i: "inj_on f (set xs)" by (simp_all add: distinct_map)
  have "distinct (py_sort_desc k xs)" using d by (simp add: py_sort_desc_def)
  then have "distinct (py_slice_to n (py_sort_desc k xs))" by (simp add: py_slice_to_def)
  moreover have "inj_on f (set (py_slice_to n (py_sort_desc k xs)))"
    using i set_py_slice_to [of n "py_sort_desc k xs"] 
    by (auto simp: set_py_sort_desc intro: inj_on_subset)
  ultimately show ?thesis by (simp add: distinct_map)
qed

lemma find_Some_mem: "find P xs = Some x \<Longrightarrow> x \<in> set xs"
  by (auto simp: find_Some_iff)

lemma get_required_skills_for_role_pos:
  "(k, v) \<in> set (get_required_skills_for_role role) \<Longrightarrow> 0 < v"
  by (auto simp: get_required_skills_for_role_def py_get_def role_requirements_def split: if_splits)

lemma all_requirements_pos: "(k, v) \<in> set (all_requirements roles) \<Longrightarrow> 0 < v"
  by (auto simp: all_requirements_def dest: get_required_skills_for_role_pos)

lemma analyze_example:
  "map gap_summary
     (analyze_skill_gaps remdups
        \<lparr>skills = Some [''Python''], experience_level = Some ''senior'',
         education = Some ''bachelor'', preferred_industries = Some [], interests = Some []\<rparr>
        (Some [''Software Engineer'', ''Data Scientist''])) =
   [(''Machine Learning'', 0, 8, 8), (''Data Analysis'', 0, 8, 8), (''JavaScript'', 0, 7, 7),
    (''Communication'', 0, 6, 6), (''Programming'', 0, 8, 8), (''Problem Solving'', 0, 8, 8),
    (''Statistics'', 0, 7, 7), (''Python'', 7, 8, 1)]"
  by code_simp


text \<open>
  Claim C4.  \<open>analyze_skill_gaps\<close> returns at most 10 gaps; every returned gap has a
  current level strictly below its required level, a gap size of at least 1 that is
  their difference, the estimated current level of its skill as current level, and a
  requirement of one of the target roles as required level.  So no gap is returned for
  a requirement that the estimated level meets.
\<close>

theorem analyze_skill_gaps_at_most_10_genuine:
  "length (analyze_skill_gaps set_list user_profile target_roles) \<le> 10 \<and>
   (\<forall>g \<in> set (analyze_skill_gaps set_list user_profile target_roles).
      current_level g < required_level g \<and>
      1 \<le> gap_size g \<and>
      gap_size g = required_level g - current_level g \<and>
      current_level g = current_level_of (user_skills_of user_profile) (skill g) \<and>
      (skill g, required_level g) \<in>
        set (all_requirements (effective_roles set_list user_profile target_roles)))"
proof (intro conjI ballI)
  show "length (analyze_skill_gaps set_list user_profile target_roles) \<le> 10"
    by (rule length_analyze_skill_gaps)
next
  fix g
  assume "g \<in> set (analyze_skill_gaps set_list user_profile target_roles)"
  then have "g \<in> set (fst (scan_roles user_profile (user_skills_of user_profile)
                 (effective_roles set_list user_profile target_roles) ([], {})))"
    using set_analyze_skill_gaps by blast
  then have ok: "gap_ok (user_skills_of user_profile)
                   (all_requirements (effective_roles set_list user_profile target_roles)) g"
    by (rule scan_roles_gap_ok)
  show "current_level g < required_level g" using ok by (simp add: gap_ok_def)
  show "1 \<le> gap_size g" using ok by (simp add: gap_ok_def)
  show "gap_size g = required_level g - current_level g" using ok by (simp add: gap_ok_def)
  show "current_level g = current_level_of (user_skills_of user_profile) (skill g)"
    using ok by (simp add: gap_ok_def)
  show "(skill g, required_level g) \<in>
        set (all_requirements (effective_roles set_list user_profile target_roles))"
    using ok unfolding gap_ok_def by (blast dest: find_Some_mem)
qed

theorem analyze_skill_gaps_at_most_10_genuine_witness:
  "length (analyze_skill_gaps remdups
        \<lparr>skills = Some [''Python''], experience_level = Some ''senior'',
         education = Some ''bachelor'', preferred_industries = Some [], interests = Some []\<rparr>
        (Some [''Software Engineer'', ''Data Scientist''])) = 8 \<and>
   list_all (\<lambda>g. current_level g < required_level g \<and> 1 \<le> gap_size g)
     (analyze_skill_gaps remdups
        \<lparr>skills = Some [''Python''], experience_level = Some ''senior'',
         education = Some ''bachelor'', preferred_industries = Some [], interests = Some []\<rparr>
        (Some [''Software Engineer'', ''Data Scientist'']))"
proof -
  let ?res = "analyze_skill_gaps remdups
        \<lparr>skills = Some [''Python''], experience_level = Some ''senior'',
         education = Some ''bachelor'', preferred_industries = Some [], interests = Some []\<rparr>
        (Some [''Software Engineer'', ''Data Scientist''])"
  have "length (map gap_summary ?res) = 8"
    unfolding analyze_example by simp
  then have l: "length ?res = 8" by simp
  have "\<forall>g \<in> set ?res. current_level g < required_level g \<and> 1 \<le> gap_size g"
    using analyze_skill_gaps_at_most_10_genuine
            [of remdups "\<lparr>skills = Some [''Python''], experience_level = Some ''senior'',
         education = Some ''bachelor'', preferred_industries = Some [], interests = Some []\<rparr>"
               "Some [''Software Engineer'', ''Data Scientist'']"]
    by blast
  then have "list_all (\<lambda>g. current_level g < required_level g \<and> 1 \<le> gap_size g) ?res"
    by (simp only: list_all_iff)
  with l show ?thesis by (rule conjI)
qed

text \<open>
  Claim C5, as stated, fails.  With the skill Python claimed at the senior level 7 and
  the target roles Software Engineer, Data Scientist, the first role requires Python
  at level 6, which is met, so no gap is recorded and the name is not added to
  \<open>analyzed_skills\<close>; the second role requires level 8, and the returned Python gap has
  required level 8, not the level 6 of the first role that requires the skill.
\<close>

theorem first_occurrence_wins_counterexample:
  "map gap_summary
     (analyze_skill_gaps remdups
        \<lparr>skills = Some [''Python''], experience_level = Some ''senior'',
         education = Some ''bachelor'', preferred_industries = Some [], interests = Some []\<rparr>
        (Some [''Software Engineer'', ''Data Scientist''])) =
   [(''Machine Learning'', 0, 8, 8), (''Data Analysis'', 0, 8, 8), (''JavaScript'', 0, 7, 7),
    (''Communication'', 0, 6, 6), (''Programming'', 0, 8, 8), (''Problem Solving'', 0, 8, 8),
    (''Statistics'', 0, 7, 7), (''Python'', 7, 8, 1)] \<and>
   first_requirement [''Software Engineer'', ''Data Scientist''] ''Python'' = Some 6"
proof
  show "first_requirement [''Software Engineer'', ''Data Scientist''] ''Python'' = Some 6"
    by code_simp
qed (rule analyze_example)

lemma scan_roles_covered:
  assumes "(k, v) \<in> set (all_requirements roles)" "current_level_of us k < v"
  shows "\<exists>g \<in> set (fst (scan_roles p us roles ([], {}))). lower (skill g) = lower k"
proof -
  have "\<forall>(k, v) \<in> set (all_requirements roles). current_level_of us k < v \<longrightarrow>
          lower k \<in> snd (scan_roles p us roles ([], {}))"
    and "snd (scan_roles p us roles ([], {})) =
          (\<lambda>g. lower (skill g)) ` set (fst (scan_roles p us roles ([], {})))"
    using scan_inv_roles [of us roles p] unfolding scan_inv_def by blast+
  with assms show ?thesis by fastforce
qed

lemma py_slice_to_10_full:
  "length (py_slice_to 10 xs) = 10 \<or> set (py_slice_to 10 xs) = set xs"
  by (cases "10 \<le> length xs") (simp_all add: py_slice_to_def)

lemma analyze_skill_gaps_complete:
  "length (analyze_skill_gaps set_list user_profile target_roles) = 10 \<or>
   set (analyze_skill_gaps set_list user_profile target_roles) =
     set (fst (scan_roles user_profile (user_skills_of user_profile)
                 (effective_roles set_list user_profile target_roles) ([], {})))"
  unfolding analyze_skill_gaps_def Let_def
  using py_slice_to_10_full
          [of "py_sort_desc (\<lambda>g. (importance_score g, gap_size g))
                 (fst (scan_roles user_profile (user_skills_of user_profile)
                         (effective_roles set_list user_profile target_roles) ([], {})))"]
  by (simp add: set_py_sort_desc)

lemma first_unmet_requirement_lower:
  "lower k = lower k' \<Longrightarrow>
   first_unmet_requirement us roles k = first_unmet_requirement us roles k'"
  by (simp add: first_unmet_requirement_def)

text \<open>
  Claim C5, amended.  The lower-cased skill names of the returned gaps are pairwise
  distinct, and the required level of a returned gap is the level of the first
  requirement, in the order of the target roles and of each role's table, that has the
  skill's lower-cased name and exceeds the estimated current level of the skill; for a
  skill that the profile does not claim, this is the first requirement with that name.
  Conversely, a requirement that exceeds the estimated current level is never lost to
  an earlier requirement that was met: unless the result is cut at 10 entries, it
  contains a gap for that skill, with the level of the first such requirement.
\<close>

theorem analyze_skill_gaps_first_unmet_wins:
  "distinct (map (\<lambda>g. lower (skill g)) (analyze_skill_gaps set_list user_profile target_roles)) \<and>
   (\<forall>g \<in> set (analyze_skill_gaps set_list user_profile target_roles).
      first_unmet_requirement (user_skills_of user_profile)
        (effective_roles set_list user_profile target_roles) (skill g) = Some (required_level g) \<and>
      (user_skills_of user_profile (lower (skill g)) = None \<longrightarrow>
         first_requirement (effective_roles set_list user_profile target_roles) (skill g) =
           Some (required_level g))) \<and>
   (\<forall>(k, v) \<in> set (all_requirements (effective_roles set_list user_profile target_roles)).
      current_level_of (user_skills_of user_profile) k < v \<longrightarrow>
      length (analyze_skill_gaps set_list user_profile target_roles) = 10 \<or>
      (\<exists>g \<in> set (analyze_skill_gaps set_list user_profile target_roles).
         lower (skill g) = lower k \<and>
         first_unmet_requirement (user_skills_of user_profile)
           (effective_roles set_list user_profile target_roles) k = Some (required_level g)))"
proof -
  let ?us = "user_skills_of user_profile"
  let ?roles = "effective_roles set_list user_profile target_roles"
  let ?res = "analyze_skill_gaps set_list user_profile target_roles"
  let ?gaps = "fst (scan_roles user_profile ?us ?roles ([], {}))"
  have d: "distinct (map (\<lambda>g. lower (skill g)) ?res)"
    unfolding analyze_skill_gaps_def Let_def
    by (intro distinct_map_py_sort_desc scan_roles_distinct)
  have u: "first_unmet_requirement ?us ?roles (skill g) = Some (required_level g)"
    if "g \<in> set ?res" for g
  proof -
    from that have "g \<in> set ?gaps" using set_analyze_skill_gaps by blast
    then have "gap_ok ?us (all_requirements ?roles) g" by (rule scan_roles_gap_ok)
    then show ?thesis by (simp add: gap_ok_def first_unmet_requirement_def)
  qed
  have f: "first_requirement ?roles (skill g) = Some (required_level g)"
    if "g \<in> set ?res" and none: "?us (lower (skill g)) = None" for g
  proof -
    have "find (\<lambda>(k, v). lower k = lower (skill g)) (all_requirements ?roles) =
          find (\<lambda>(k, v). lower k = lower (skill g) \<and> current_level_of ?us k < v)
            (all_requirements ?roles)"
    proof (rule find_cong [OF refl])
      fix x
      assume x: "x \<in> set (all_requirements ?roles)"
      obtain k v where kv: "x = (k, v)" by (cases x)
      have "0 < v" using x all_requirements_pos unfolding kv by blast
      then show "(case x of (k, v) \<Rightarrow> lower k = lower (skill g)) =
                 (case x of (k, v) \<Rightarrow> lower k = lower (skill g) \<and> current_level_of ?us k < v)"
        using none by (auto simp: kv current_level_of_def)
    qed
    then show ?thesis
      using u [OF that(1)] by (simp add: first_requirement_def first_unmet_requirement_def)
  qed
  have c: "length ?res = 10 \<or>
           (\<exists>g \<in> set ?res. lower (skill g) = lower k \<and>
              first_unmet_requirement ?us ?roles k = Some (required_level g))"
    if "(k, v) \<in> set (all_requirements ?roles)" "current_level_of ?us k < v" for k v
  proof (cases "length ?res = 10")
    case True
    then show ?thesis by simp
  next
    case False
    with analyze_skill_gaps_complete [of set_list user_profile target_roles]
    have s: "set ?res = set ?gaps" by simp
    from that obtain g where g: "g \<in> set ?gaps" "lower (skill g) = lower k"
      using scan_roles_covered [of k v ?roles ?us user_profile] by blast
    then have r: "g \<in> set ?res" using s by simp
    have "first_unmet_requirement ?us ?roles k = first_unmet_requirement ?us ?roles (skill g)"
      using g(2) by (intro first_unmet_requirement_lower) simp
    with u [OF r] g(2) r show ?thesis by auto
  qed
  show ?thesis
    using d u f c by blast
qed

theorem analyze_skill_gaps_first_unmet_wins_witness:
  "length (analyze_skill_gaps remdups
        \<lparr>skills = Some [''Python''], experience_level = Some ''senior'',
         education = Some ''bachelor'', preferred_industries = Some [], interests = Some []\<rparr>
        (Some [''Software Engineer'', ''Data Scientist''])) = 8 \<and>
   (\<exists>g. g \<in> set (analyze_skill_gaps remdups
        \<lparr>skills = Some [''Python''], experience_level = Some ''senior'',
         education = Some ''bachelor'', preferred_industries = Some [], interests = Some []\<rparr>
        (Some [''Software Engineer'', ''Data Scientist''])) \<and>
      lower (skill g) = ''python'' \<and> required_level g = 8) \<and>
   first_requirement [''Software Engineer'', ''Data Scientist''] ''Python'' = Some 6"
proof -
  let ?p = "\<lparr>skills = Some [''Python''], experience_level = Some ''senior'',
         education = Some ''bachelor'', preferred_industries = Some [], interests = Some []\<rparr>"
  let ?roles = "[''Software Engineer'', ''Data Scientist'']"
  let ?res = "analyze_skill_gaps remdups ?p (Some ?roles)"
  have r: "effective_roles remdups ?p (Some ?roles) = ?roles"
    by (simp add: effective_roles_def)
  have "length (map gap_summary ?res) = 8"
    unfolding analyze_example by simp
  then have l: "length ?res = 8" by simp
  have m: "(''Python'', 8) \<in> set (all_requirements ?roles)"
    by code_simp
  have cur: "current_level_of (user_skills_of ?p) ''Python'' < 8"
    by code_simp
  have fu: "first_unmet_requirement (user_skills_of ?p) ?roles ''Python'' = Some 8"
    by code_simp
  have lo: "lower ''Python'' = ''python''"
    by code_simp
  have fr: "first_requirement ?roles ''Python'' = Some 6"
    by code_simp
  have "\<forall>(k, v) \<in> set (all_requirements ?roles).
      current_level_of (user_skills_of ?p) k < v \<longrightarrow>
      length ?res = 10 \<or>
      (\<exists>g \<in> set ?res. lower (skill g) = lower k \<and>
         first_unmet_requirement (user_skills_of ?p) ?roles k = Some (required_level g))"
    using analyze_skill_gaps_first_unmet_wins [of remdups ?p "Some ?roles"]
    unfolding r by blast
  with m cur have "length ?res = 10 \<or>
      (\<exists>g \<in> set ?res. lower (skill g) = lower ''Python'' \<and>
         first_unmet_requirement (user_skills_of ?p) ?roles ''Python'' = Some (required_level g))"
    by blast
  with l have "\<exists>g \<in> set ?res. lower (skill g) = lower ''Python'' \<and>
         first_unmet_requirement (user_skills_of ?p) ?roles ''Python'' = Some (required_level g)"
    by simp
  then have "\<exists>g. g \<in> set ?res \<and> lower (skill g) = ''python'' \<and> required_level g = 8"
    unfolding fu lo by auto
  with l fr show ?thesis by blast
qed

end
